theory Spec2Isabelle
  imports Complex_Main
begin

section \<open>Numbers and shared data (types.ts, constants.ts)\<close>

text \<open>
  A TypeScript \<open>number\<close> is modelled as a \<^typ>\<open>real\<close>: arithmetic is exact, so a
  property the source can only have "within floating tolerance" is an equation here.
  Division is only ever read where the divisor is non-zero (by a guard of the source or
  by a hypothesis of the theorem), because \<open>a / 0\<close> is \<open>Infinity\<close> or \<open>NaN\<close> in the
  source and \<open>0\<close> in HOL.

  Field names carry a prefix where two interfaces of the source share a name
  (\<open>CropArea.x\<close> is \<open>crop_x\<close>, \<open>Point.x\<close> is \<open>pt_x\<close>, and so on).
\<close>

datatype unit_kind = Px | Percent

record CropArea =
  crop_x :: real
  crop_y :: real
  crop_width :: real
  crop_height :: real
  crop_unit :: unit_kind

section \<open>The crop overlay (components/CropOverlay.tsx)\<close>

record CropOverlayProps =
  width :: real
  height :: real
  aspectRatio :: real

text \<open>The \<open>startPos\<close> ref: pointer position and crop geometry at gesture start.\<close>

record StartPos =
  start_x :: real
  start_y :: real
  cx :: real
  cy :: real
  cw :: real
  ch :: real

record PointerEvent =
  clientX :: real
  clientY :: real

record CropOverlayState =
  crop :: CropArea
  isDragging :: bool
  dragHandle :: "string option"
  startPos :: StartPos

text \<open>The values the \<open>useState\<close> and \<open>useRef\<close> calls start from.\<close>

definition initialState :: "CropOverlayProps \<Rightarrow> CropOverlayState" where
  "initialState p =
     \<lparr>crop = \<lparr>crop_x = 0, crop_y = 0, crop_width = width p, crop_height = height p,
              crop_unit = Px\<rparr>,
      isDragging = False,
      dragHandle = None,
      startPos = \<lparr>start_x = 0, start_y = 0, cx = 0, cy = 0, cw = 0, ch = 0\<rparr>\<rparr>"

text \<open>
  The region computed by the effect "Initialize crop centered"; the effect stores it
  and passes it to \<open>onCropChange\<close>.
\<close>

definition initCrop :: "CropOverlayProps \<Rightarrow> CropArea" where
  "initCrop p =
     (let initW0 = width p * 0.8;
          initH0 = height p * 0.8;
          (initW, initH) =
            (if aspectRatio p \<noteq> 0 then
               (if width p / height p > aspectRatio p then
                  (let initH1 = height p * 0.8 in (initH1 * aspectRatio p, initH1))
                else
                  (let initW1 = width p * 0.8 in (initW1, initW1 / aspectRatio p)))
             else (initW0, initH0));
          initX = (width p - initW) / 2;
          initY = (height p - initH) / 2
      in \<lparr>crop_x = initX, crop_y = initY, crop_width = initW, crop_height = initH,
          crop_unit = Px\<rparr>)"

definition initEffect :: "CropOverlayProps \<Rightarrow> CropOverlayState \<Rightarrow> CropOverlayState" where
  "initEffect p st = st\<lparr>crop := initCrop p\<rparr>"

definition handlePointerDown ::
    "CropOverlayState \<Rightarrow> PointerEvent \<Rightarrow> string \<Rightarrow> CropOverlayState" where
  "handlePointerDown st e handle =
     st\<lparr>isDragging := True,
        dragHandle := Some handle,
        startPos := \<lparr>start_x = clientX e, start_y = clientY e,
                      cx = crop_x (crop st), cy = crop_y (crop st),
                      cw = crop_width (crop st), ch = crop_height (crop st)\<rparr>\<rparr>"

text \<open>\<open>dragHandle?.includes(c)\<close>: false on \<open>null\<close>.\<close>

definition handleIncludes :: "string option \<Rightarrow> char \<Rightarrow> bool" where
  "handleIncludes h c = (case h of None \<Rightarrow> False | Some s \<Rightarrow> c \<in> set s)"

text \<open>
  The region \<open>next\<close> that \<open>handlePointerMove\<close> computes while a drag is active. The
  statements of the source run in order, each on the record the previous one left.
\<close>

definition resizeEdges :: "CropOverlayProps \<Rightarrow> CropOverlayState \<Rightarrow> real \<Rightarrow> real \<Rightarrow> CropArea" where
  "resizeEdges p st dx dy =
     (let n0 = crop st;
          n1 = (if handleIncludes (dragHandle st) CHR ''e''
                then n0\<lparr>crop_width :=
                          max 50 (min (width p - crop_x (crop st)) (cw (startPos st) + dx))\<rparr>
                else n0);
          n2 = (if handleIncludes (dragHandle st) CHR ''s''
                then n1\<lparr>crop_height :=
                          max 50 (min (height p - crop_y (crop st)) (ch (startPos st) + dy))\<rparr>
                else n1)
      in n2)"

definition enforceAspect :: "CropOverlayProps \<Rightarrow> CropOverlayState \<Rightarrow> CropArea \<Rightarrow> CropArea" where
  "enforceAspect p st n2 =
     (if aspectRatio p \<noteq> 0 then
        (let n3 = (if handleIncludes (dragHandle st) CHR ''e''
                   then n2\<lparr>crop_height := crop_width n2 / aspectRatio p\<rparr> else n2);
             n4 = (if handleIncludes (dragHandle st) CHR ''s''
                   then n3\<lparr>crop_width := crop_height n3 * aspectRatio p\<rparr> else n3);
             n5 = (if crop_width n4 + crop_x n4 > width p
                   then (let m = n4\<lparr>crop_width := width p - crop_x n4\<rparr>
                         in m\<lparr>crop_height := crop_width m / aspectRatio p\<rparr>)
                   else n4);
             n6 = (if crop_height n5 + crop_y n5 > height p
                   then (let m = n5\<lparr>crop_height := height p - crop_y n5\<rparr>
                         in m\<lparr>crop_width := crop_height m * aspectRatio p\<rparr>)
                   else n5)
         in n6)
      else n2)"

definition nextCrop :: "CropOverlayProps \<Rightarrow> CropOverlayState \<Rightarrow> PointerEvent \<Rightarrow> CropArea" where
  "nextCrop p st e =
     (let dx = clientX e - start_x (startPos st);
          dy = clientY e - start_y (startPos st)
      in if dragHandle st = Some ''move'' then
           (crop st)\<lparr>crop_x := max 0 (min (width p - crop_width (crop st)) (cx (startPos st) + dx)),
                      crop_y := max 0 (min (height p - crop_height (crop st)) (cy (startPos st) + dy))\<rparr>
         else enforceAspect p st (resizeEdges p st dx dy))"

definition handlePointerMove ::
    "CropOverlayProps \<Rightarrow> CropOverlayState \<Rightarrow> PointerEvent \<Rightarrow> CropOverlayState" where
  "handlePointerMove p st e =
     (if \<not> isDragging st then st else st\<lparr>crop := nextCrop p st e\<rparr>)"

definition handlePointerUp :: "CropOverlayState \<Rightarrow> CropOverlayState" where
  "handlePointerUp st = st\<lparr>isDragging := False, dragHandle := None\<rparr>"

text \<open>A region lies inside the container of the overlay.\<close>

definition insideContainer :: "CropOverlayProps \<Rightarrow> CropArea \<Rightarrow> bool" where
  "insideContainer p c \<longleftrightarrow>
     0 \<le> crop_x c \<and> 0 \<le> crop_y c \<and>
     crop_x c + crop_width c \<le> width p \<and> crop_y c + crop_height c \<le> height p"

section \<open>The brush overlay (components/BrushOverlay.tsx)\<close>

record Point =
  pt_x :: real
  pt_y :: real

record Stroke =
  stroke_points :: "Point list"
  stroke_size :: real
  stroke_color :: string

record BrushOverlayProps =
  canvasWidth :: real
  canvasHeight :: real
  brushSize :: real

text \<open>What \<open>getBoundingClientRect\<close> returns for the canvas.\<close>

record DOMRect =
  rect_left :: real
  rect_top :: real
  rect_width :: real
  rect_height :: real

text \<open>The three \<open>useState\<close> values of the component.\<close>

record BrushValues =
  isDrawing :: bool
  currentPoints :: "Point list"
  strokes :: "Stroke list"

text \<open>
  The handlers of the component are closures of a render: they read the props and the
  state values of that render (\<open>props\<close>, \<open>seen\<close>), also after a later handler has
  called a setter. The setters act on the state of the component (\<open>latest\<close>): a
  setter called with a value replaces it, a setter called with a function
  (\<open>prev => ...\<close>) is applied to the value that the setters called before it have left.
  The next render makes \<open>latest\<close> the values its handlers read.
\<close>

record BrushOverlayState =
  props :: BrushOverlayProps
  seen :: BrushValues
  latest :: BrushValues

definition brushInitialValues :: BrushValues where
  "brushInitialValues = \<lparr>isDrawing = False, currentPoints = [], strokes = []\<rparr>"

text \<open>The state after the first render, with the props of that render.\<close>

definition brushMount :: "BrushOverlayProps \<Rightarrow> BrushOverlayState" where
  "brushMount p = \<lparr>props = p, seen = brushInitialValues, latest = brushInitialValues\<rparr>"

definition brushRender :: "BrushOverlayProps \<Rightarrow> BrushOverlayState \<Rightarrow> BrushOverlayState" where
  "brushRender p st = \<lparr>props = p, seen = latest st, latest = latest st\<rparr>"

text \<open>
  \<open>getPoint\<close>: the second argument is \<open>canvasRef.current?.getBoundingClientRect()\<close>,
  \<open>None\<close> when the ref is not attached.
\<close>

definition getPoint :: "BrushOverlayProps \<Rightarrow> DOMRect option \<Rightarrow> PointerEvent \<Rightarrow> Point" where
  "getPoint p rect e =
     (case rect of
        None \<Rightarrow> \<lparr>pt_x = 0, pt_y = 0\<rparr>
      | Some r \<Rightarrow>
          (let scaleX = canvasWidth p / rect_width r;
               scaleY = canvasHeight p / rect_height r
           in \<lparr>pt_x = (clientX e - rect_left r) * scaleX,
               pt_y = (clientY e - rect_top r) * scaleY\<rparr>))"

definition maskColor :: string where
  "maskColor = ''rgba(255, 50, 50, 0.5)''"

definition brushPointerDown ::
    "DOMRect option \<Rightarrow> BrushOverlayState \<Rightarrow> PointerEvent \<Rightarrow> BrushOverlayState" where
  "brushPointerDown rect st e =
     st\<lparr>latest := (latest st)\<lparr>isDrawing := True,
                               currentPoints := [getPoint (props st) rect e]\<rparr>\<rparr>"

definition brushPointerMove ::
    "DOMRect option \<Rightarrow> BrushOverlayState \<Rightarrow> PointerEvent \<Rightarrow> BrushOverlayState" where
  "brushPointerMove rect st e =
     (if \<not> isDrawing (seen st) then st
      else st\<lparr>latest := (latest st)\<lparr>currentPoints :=
                 currentPoints (latest st) @ [getPoint (props st) rect e]\<rparr>\<rparr>)"

text \<open>
  \<open>handlePointerUp\<close> tests and stores the \<open>currentPoints\<close> of its render, with the
  \<open>brushSize\<close> of its render; the stroke is appended by a functional update.
\<close>

definition brushPointerUp :: "BrushOverlayState \<Rightarrow> PointerEvent \<Rightarrow> BrushOverlayState" where
  "brushPointerUp st e =
     (if \<not> isDrawing (seen st) then st
      else (let l1 = (latest st)\<lparr>isDrawing := False\<rparr>;
                l2 = (if length (currentPoints (seen st)) > 0
                      then l1\<lparr>strokes := strokes l1 @
                                  [\<lparr>stroke_points = currentPoints (seen st),
                                    stroke_size = brushSize (props st),
                                    stroke_color = maskColor\<rparr>]\<rparr>
                      else l1)
            in st\<lparr>latest := l2\<lparr>currentPoints := []\<rparr>\<rparr>))"

text \<open>
  What happens to the component: it is rendered again (with the props of that moment),
  or the canvas dispatches a pointer event (with the bounding rectangle of that moment).
  Nothing is assumed about when renders happen between pointer events.
\<close>

datatype BrushEvent = PointerDown PointerEvent | PointerMove PointerEvent | PointerUp PointerEvent

datatype BrushInput = Render BrushOverlayProps | Pointer "DOMRect option" BrushEvent

fun brushStep :: "BrushOverlayState \<Rightarrow> BrushInput \<Rightarrow> BrushOverlayState" where
  "brushStep st (Render p) = brushRender p st"
| "brushStep st (Pointer rect (PointerDown e)) = brushPointerDown rect st e"
| "brushStep st (Pointer rect (PointerMove e)) = brushPointerMove rect st e"
| "brushStep st (Pointer rect (PointerUp e)) = brushPointerUp st e"

definition brushRun :: "BrushOverlayState \<Rightarrow> BrushInput list \<Rightarrow> BrushOverlayState" where
  "brushRun st is = foldl brushStep st is"

text \<open>
  Read off a sequence of inputs that starts under the props \<open>p\<close>: the points of its
  pointer-down events, and the brush sizes of the renders its pointer-up events were
  handled in.
\<close>

fun downPoints :: "BrushOverlayProps \<Rightarrow> BrushInput list \<Rightarrow> Point list" where
  "downPoints p [] = []"
| "downPoints p (Render q # is) = downPoints q is"
| "downPoints p (Pointer rect (PointerDown e) # is) = getPoint p rect e # downPoints p is"
| "downPoints p (Pointer rect (PointerMove e) # is) = downPoints p is"
| "downPoints p (Pointer rect (PointerUp e) # is) = downPoints p is"

fun upSizes :: "BrushOverlayProps \<Rightarrow> BrushInput list \<Rightarrow> real list" where
  "upSizes p [] = []"
| "upSizes p (Render q # is) = upSizes q is"
| "upSizes p (Pointer rect (PointerDown e) # is) = upSizes p is"
| "upSizes p (Pointer rect (PointerMove e) # is) = upSizes p is"
| "upSizes p (Pointer rect (PointerUp e) # is) = brushSize p # upSizes p is"

text \<open>
  The invariant of the component, for a set \<open>D\<close> of pointer-down points and a set \<open>U\<close>
  of brush sizes: every stored stroke is non-empty, has the mask colour, starts at a
  point of \<open>D\<close> and has a size of \<open>U\<close>; and while \<open>isDrawing\<close> is set the current
  points are non-empty and start at a point of \<open>D\<close>.
\<close>

definition strokeOk :: "Point set \<Rightarrow> real set \<Rightarrow> Stroke \<Rightarrow> bool" where
  "strokeOk D U s \<longleftrightarrow>
     stroke_points s \<noteq> [] \<and> stroke_color s = maskColor \<and>
     hd (stroke_points s) \<in> D \<and> stroke_size s \<in> U"

definition valuesOk :: "Point set \<Rightarrow> real set \<Rightarrow> BrushValues \<Rightarrow> bool" where
  "valuesOk D U v \<longleftrightarrow>
     (\<forall>s \<in> set (strokes v). strokeOk D U s) \<and>
     (isDrawing v \<longrightarrow> currentPoints v \<noteq> [] \<and> hd (currentPoints v) \<in> D)"

definition brushInv :: "Point set \<Rightarrow> real set \<Rightarrow> BrushOverlayState \<Rightarrow> bool" where
  "brushInv D U st \<longleftrightarrow> valuesOk D U (seen st) \<and> valuesOk D U (latest st)"

section \<open>Upload (App.tsx, constants.ts)\<close>

definition MAX_FILE_SIZE_MB :: nat where
  "MAX_FILE_SIZE_MB = 10"

definition ALLOWED_TYPES :: "string list" where
  "ALLOWED_TYPES = [''image/jpeg'', ''image/png'', ''image/webp'']"

datatype AppMode = UPLOAD | EDIT | PREVIEW | MASK

text \<open>The fields of a browser \<open>File\<close> that the handler reads; the size is in bytes.\<close>

record File =
  file_name :: string
  file_type :: string
  file_size :: nat

record ImageState =
  originalUrl :: "string option"
  currentUrl :: "string option"
  filename :: string
  image_width :: real
  image_height :: real
  fileSize :: nat
  image_type :: string

text \<open>The part of the state of \<open>App\<close> that \<open>handleFileUpload\<close> reads or writes.\<close>

record AppState =
  mode :: AppMode
  originalImage :: "ImageState option"
  previewUrl :: "string option"
  errorMessage :: "string option"

text \<open>
  An image load started by the handler: the object URL given to \<open>img.src\<close> and the
  file, which the \<open>onload\<close> callback reads.
\<close>

record PendingLoad =
  load_url :: string
  load_file :: File

text \<open>
  \<open>handleFileUpload\<close>. The second argument is the URL that \<open>URL.createObjectURL\<close>
  returns for the file, the third is \<open>e.target.files?.[0]\<close>. The result is the state
  after the handler has returned and the image load it has started, if any.
\<close>

definition handleFileUpload ::
    "AppState \<Rightarrow> string \<Rightarrow> File option \<Rightarrow> AppState \<times> PendingLoad option" where
  "handleFileUpload st url f =
     (case f of
        None \<Rightarrow> (st, None)
      | Some file \<Rightarrow>
          if file_type file \<notin> set ALLOWED_TYPES then
            (st\<lparr>errorMessage := Some ''Unsupported file format. Please use JPG, PNG, or WEBP.''\<rparr>,
             None)
          else if file_size file > MAX_FILE_SIZE_MB * 1024 * 1024 then
            (st\<lparr>errorMessage := Some ''File too large. Max size is 10MB.''\<rparr>, None)
          else
            (st\<lparr>errorMessage := None\<rparr>, Some \<lparr>load_url = url, load_file = file\<rparr>))"

text \<open>The \<open>img.onload\<close> callback, with the decoded image's width and height.\<close>

definition imgOnload :: "AppState \<Rightarrow> PendingLoad \<Rightarrow> real \<Rightarrow> real \<Rightarrow> AppState" where
  "imgOnload st l w h =
     st\<lparr>originalImage :=
          Some \<lparr>originalUrl = Some (load_url l), currentUrl = Some (load_url l),
                filename = file_name (load_file l), image_width = w, image_height = h,
                fileSize = file_size (load_file l), image_type = file_type (load_file l)\<rparr>,
        previewUrl := Some (load_url l),
        mode := EDIT\<rparr>"

section \<open>The image processor (services/imageProcessor.ts)\<close>

datatype ExportFormat = Png | Jpeg | Webp

fun formatName :: "ExportFormat \<Rightarrow> string" where
  "formatName Png = ''png''"
| "formatName Jpeg = ''jpeg''"
| "formatName Webp = ''webp''"

record ProcessingOptions =
  scale :: real
  maintainAspect :: bool
  opt_crop :: "CropArea option"
  format :: ExportFormat
  quality :: real

text \<open>A loaded \<open>HTMLImageElement\<close>: the two fields the processor reads.\<close>

record ImageElement =
  img_width :: real
  img_height :: real

text \<open>
  How an asynchronous function ends: its promise resolves with a value, rejects with an
  error, or is never settled.
\<close>

datatype failure = ImageLoadError | Error string

datatype 'a promise = Resolved 'a | Rejected failure | Unsettled

text \<open>
  What the source cannot decide by itself: whether \<open>canvas.getContext('2d')\<close> returns a
  context and whether \<open>canvas.toBlob\<close> hands a blob to its callback.
\<close>

record Platform =
  hasContext :: bool
  hasBlob :: bool

text \<open>
  The result of \<open>processImage\<close>: the size assigned to the canvas, the arguments of the
  one \<open>drawImage\<close> call, and the arguments of \<open>toBlob\<close>. The numbers are the ones
  the source computes and assigns; the browser's conversion of an assigned canvas size
  to a whole number of pixels is not part of the source and is not modelled.
\<close>

record Processed =
  out_width :: real
  out_height :: real
  sx :: real
  sy :: real
  sw :: real
  sh :: real
  dw :: real
  dh :: real
  mimeType :: string
  out_quality :: real

definition processImage ::
    "Platform \<Rightarrow> ImageElement promise \<Rightarrow> ProcessingOptions \<Rightarrow> Processed promise" where
  "processImage pf loaded options =
     (case loaded of
        Unsettled \<Rightarrow> Unsettled
      | Rejected err \<Rightarrow> Rejected err
      | Resolved img \<Rightarrow>
          if \<not> hasContext pf then Rejected (Error ''Could not get canvas context'')
          else
            (let (sx0, sy0, sw0, sh0) =
                   (case opt_crop options of
                      None \<Rightarrow> (0, 0, img_width img, img_height img)
                    | Some c \<Rightarrow>
                        if crop_unit c = Percent then
                          ((crop_x c / 100) * img_width img,
                           (crop_y c / 100) * img_height img,
                           (crop_width c / 100) * img_width img,
                           (crop_height c / 100) * img_height img)
                        else (crop_x c, crop_y c, crop_width c, crop_height c));
                 scale0 = (if scale options = 0 then 1 else scale options);
                 dw0 = sw0 * scale0;
                 dh0 = (if maintainAspect options then sh0 * scale0 else (sh0 * scale0))
             in if \<not> hasBlob pf then Rejected (Error ''Canvas conversion failed'')
                else Resolved
                  \<lparr>out_width = dw0, out_height = dh0,
                   sx = sx0, sy = sy0, sw = sw0, sh = sh0, dw = dw0, dh = dh0,
                   mimeType = ''image/'' @ formatName (format options),
                   out_quality = quality options\<rparr>))"

text \<open>
  The result of \<open>expandImageCanvas\<close>: the canvas size, the fill colour of the
  background rectangle, which covers the canvas, and the offset the image is drawn at.
\<close>

record Expanded =
  newW :: real
  newH :: real
  fillStyle :: string
  offset_x :: real
  offset_y :: real

text \<open>
  When \<open>toBlob\<close> yields no blob the callback of \<open>expandImageCanvas\<close> does nothing,
  so its promise stays unsettled.
\<close>

definition expandImageCanvas ::
    "Platform \<Rightarrow> ImageElement promise \<Rightarrow> real \<Rightarrow> string \<Rightarrow> Expanded promise" where
  "expandImageCanvas pf loaded ratio fillColor =
     (case loaded of
        Unsettled \<Rightarrow> Unsettled
      | Rejected err \<Rightarrow> Rejected err
      | Resolved img \<Rightarrow>
          (let currentRatio = img_width img / img_height img;
               (w, h) = (if ratio > currentRatio
                         then (img_height img * ratio, img_height img)
                         else (img_width img, img_width img / ratio))
           in if \<not> hasContext pf then Rejected (Error ''Context failed'')
              else (let dx = (w - img_width img) / 2;
                        dy = (h - img_height img) / 2
                    in if hasBlob pf
                       then Resolved \<lparr>newW = w, newH = h, fillStyle = fillColor,
                                       offset_x = dx, offset_y = dy\<rparr>
                       else Unsettled)))"

section \<open>Properties of the crop overlay\<close>

subsection \<open>The steps of a drag update\<close>

lemma nextCrop_move:
  "dragHandle st = Some ''move'' \<Longrightarrow>
   nextCrop p st e =
     (crop st)\<lparr>crop_x := max 0 (min (width p - crop_width (crop st))
                                  (cx (startPos st) + (clientX e - start_x (startPos st)))),
               crop_y := max 0 (min (height p - crop_height (crop st))
                                  (cy (startPos st) + (clientY e - start_y (startPos st))))\<rparr>"
  by (simp add: nextCrop_def Let_def)

lemma nextCrop_resize:
  "dragHandle st \<noteq> Some ''move'' \<Longrightarrow>
   nextCrop p st e =
     enforceAspect p st (resizeEdges p st (clientX e - start_x (startPos st))
                                          (clientY e - start_y (startPos st)))"
  by (simp add: nextCrop_def Let_def)

lemma resizeEdges_xy:
  "crop_x (resizeEdges p st dx dy) = crop_x (crop st)"
  "crop_y (resizeEdges p st dx dy) = crop_y (crop st)"
  by (simp_all add: resizeEdges_def Let_def)

lemma resizeEdges_width:
  "crop_width (resizeEdges p st dx dy) =
     (if handleIncludes (dragHandle st) CHR ''e''
      then max 50 (min (width p - crop_x (crop st)) (cw (startPos st) + dx))
      else crop_width (crop st))"
  by (simp add: resizeEdges_def Let_def)

lemma resizeEdges_height:
  "crop_height (resizeEdges p st dx dy) =
     (if handleIncludes (dragHandle st) CHR ''s''
      then max 50 (min (height p - crop_y (crop st)) (ch (startPos st) + dy))
      else crop_height (crop st))"
  by (simp add: resizeEdges_def Let_def)

lemma enforceAspect_xy:
  "crop_x (enforceAspect p st n) = crop_x n"
  "crop_y (enforceAspect p st n) = crop_y n"
  by (simp_all add: enforceAspect_def Let_def)

lemma enforceAspect_free:
  "aspectRatio p = 0 \<Longrightarrow> enforceAspect p st n = n"
  by (simp add: enforceAspect_def)

text \<open>
  After the ratio fix-up and both boundary checks the width is the height times the
  ratio, and the height is not zero, provided the origin is strictly inside the container.
\<close>

lemma enforceAspect_ratio:
  assumes r: "aspectRatio p \<noteq> 0"
    and x: "crop_x n < width p" and y: "crop_y n < height p"
    and h: "handleIncludes (dragHandle st) CHR ''e'' \<or> handleIncludes (dragHandle st) CHR ''s'' \<or>
            (crop_height n \<noteq> 0 \<and> crop_width n = crop_height n * aspectRatio p)"
    and w: "handleIncludes (dragHandle st) CHR ''e'' \<longrightarrow> crop_width n \<noteq> 0"
    and hh: "handleIncludes (dragHandle st) CHR ''s'' \<longrightarrow> crop_height n \<noteq> 0"
  shows "crop_height (enforceAspect p st n) \<noteq> 0 \<and>
         crop_width (enforceAspect p st n) = crop_height (enforceAspect p st n) * aspectRatio p"
  using assms
  by (auto simp: enforceAspect_def Let_def)

text \<open>
  With a positive ratio the two boundary checks leave the region inside the container:
  the second check shrinks the height, and the width derived from it shrinks with it.
\<close>

lemma enforceAspect_inside:
  assumes r: "0 < aspectRatio p"
    and h: "handleIncludes (dragHandle st) CHR ''e'' \<or> handleIncludes (dragHandle st) CHR ''s'' \<or>
            (crop_x n + crop_width n \<le> width p \<and> crop_y n + crop_height n \<le> height p)"
  shows "crop_x n + crop_width (enforceAspect p st n) \<le> width p \<and>
         crop_y n + crop_height (enforceAspect p st n) \<le> height p"
proof -
  let ?r = "aspectRatio p"
  have r0: "?r \<noteq> 0" using r by simp
  define n3 where "n3 = (if handleIncludes (dragHandle st) CHR ''e''
                   then n\<lparr>crop_height := crop_width n / ?r\<rparr> else n)"
  define n4 where "n4 = (if handleIncludes (dragHandle st) CHR ''s''
                   then n3\<lparr>crop_width := crop_height n3 * ?r\<rparr> else n3)"
  define n5 where "n5 = (if crop_width n4 + crop_x n4 > width p
                   then n4\<lparr>crop_width := width p - crop_x n4,
                            crop_height := (width p - crop_x n4) / ?r\<rparr>
                   else n4)"
  define n6 where "n6 = (if crop_height n5 + crop_y n5 > height p
                   then n5\<lparr>crop_height := height p - crop_y n5,
                            crop_width := (height p - crop_y n5) * ?r\<rparr>
                   else n5)"
  have E: "enforceAspect p st n = n6"
    using r0 by (simp add: enforceAspect_def Let_def n3_def n4_def n5_def n6_def)
  have xy: "crop_x n5 = crop_x n" "crop_y n5 = crop_y n" "crop_x n4 = crop_x n" "crop_y n4 = crop_y n"
    by (simp_all add: n3_def n4_def n5_def)
  have w5: "crop_x n + crop_width n5 \<le> width p"
    by (simp add: n5_def xy)
  have ratio5: "crop_width n5 = crop_height n5 * ?r \<or>
                (crop_y n + crop_height n5 \<le> height p)"
    using h r0 by (auto simp: n5_def n4_def n3_def xy)
  show ?thesis
  proof (cases "crop_height n5 + crop_y n5 > height p")
    case False
    then show ?thesis using w5 by (simp add: E n6_def xy)
  next
    case True
    with ratio5 have eq: "crop_width n5 = crop_height n5 * ?r" by (simp add: xy)
    have "(height p - crop_y n) * ?r \<le> crop_height n5 * ?r"
      using True r by (simp add: xy)
    with eq w5 have "crop_x n + (height p - crop_y n) * ?r \<le> width p" by simp
    then show ?thesis using True by (simp add: E n6_def xy)
  qed
qed

lemmas overlay_defs =
  handlePointerMove_def nextCrop_def enforceAspect_def resizeEdges_def handleIncludes_def
  insideContainer_def initCrop_def initEffect_def initialState_def handlePointerDown_def Let_def

subsection \<open>Locked ratio\<close>

text \<open>
  C1. While a drag is active on a resize handle and a ratio \<open>r \<noteq> 0\<close> is locked, the
  region the pointer-move handler produces has \<open>width = height * r\<close> with a non-zero
  height, so \<open>width / height\<close> differs from \<open>r\<close> by less than any positive \<open>eps\<close>;
  this includes the regions produced by the two boundary checks after the ratio fix-up.
  The region before the update has its origin strictly inside the container, as every
  region of positive size within the container has. The handle names the east or the
  south edge (the one resize handle of the overlay is \<open>se\<close>); for any other handle
  string the region is assumed to have the ratio already.
\<close>

theorem ratio_locked_after_resize:
  assumes "isDragging st" and "dragHandle st \<noteq> Some ''move''"
    and "aspectRatio p \<noteq> 0"
    and "crop_x (crop st) < width p" and "crop_y (crop st) < height p"
    and "handleIncludes (dragHandle st) CHR ''e'' \<or> handleIncludes (dragHandle st) CHR ''s'' \<or>
         (crop_height (crop st) \<noteq> 0 \<and> crop_width (crop st) = crop_height (crop st) * aspectRatio p)"
    and "0 < eps"
  shows "crop_height (crop (handlePointerMove p st e)) \<noteq> 0 \<and>
         crop_width (crop (handlePointerMove p st e)) =
           crop_height (crop (handlePointerMove p st e)) * aspectRatio p \<and>
         \<bar>crop_width (crop (handlePointerMove p st e)) / crop_height (crop (handlePointerMove p st e))
            - aspectRatio p\<bar> < eps"
proof -
  let ?n = "resizeEdges p st (clientX e - start_x (startPos st)) (clientY e - start_y (startPos st))"
  have c: "crop (handlePointerMove p st e) = enforceAspect p st ?n"
    using assms(1,2) by (simp add: handlePointerMove_def nextCrop_resize)
  have e: "handleIncludes (dragHandle st) CHR ''e'' \<longrightarrow> crop_width ?n \<noteq> 0"
    by (auto simp add: resizeEdges_width max_def min_def)
  have s: "handleIncludes (dragHandle st) CHR ''s'' \<longrightarrow> crop_height ?n \<noteq> 0"
    by (auto simp add: resizeEdges_height max_def min_def)
  have k: "handleIncludes (dragHandle st) CHR ''e'' \<or> handleIncludes (dragHandle st) CHR ''s'' \<or>
            (crop_height ?n \<noteq> 0 \<and> crop_width ?n = crop_height ?n * aspectRatio p)"
    using assms(6) by (auto simp: resizeEdges_width resizeEdges_height)
  have "crop_height (enforceAspect p st ?n) \<noteq> 0 \<and>
         crop_width (enforceAspect p st ?n) = crop_height (enforceAspect p st ?n) * aspectRatio p"
    by (rule enforceAspect_ratio) (use assms e s k in \<open>simp_all add: resizeEdges_xy\<close>)
  then show ?thesis using c assms(7) by simp
qed

text \<open>
  A 400 by 300 container with the ratio 1 locked: the initial region is 240 by 240 at
  (80, 30). Dragging the \<open>se\<close> handle far to the lower right makes the second boundary
  check fire, and the result is 270 by 270.
\<close>

theorem ratio_locked_after_resize_witness:
  "isDragging (handlePointerDown (initEffect \<lparr>width = 400, height = 300, aspectRatio = 1\<rparr>
       (initialState \<lparr>width = 400, height = 300, aspectRatio = 1\<rparr>))
       \<lparr>clientX = 320, clientY = 270\<rparr> ''se'') \<and>
   crop_x (initCrop \<lparr>width = 400, height = 300, aspectRatio = 1\<rparr>) < 400 \<and>
   crop_y (initCrop \<lparr>width = 400, height = 300, aspectRatio = 1\<rparr>) < 300 \<and>
   crop (handlePointerMove \<lparr>width = 400, height = 300, aspectRatio = 1\<rparr>
     (handlePointerDown (initEffect \<lparr>width = 400, height = 300, aspectRatio = 1\<rparr>
         (initialState \<lparr>width = 400, height = 300, aspectRatio = 1\<rparr>))
         \<lparr>clientX = 320, clientY = 270\<rparr> ''se'')
     \<lparr>clientX = 900, clientY = 900\<rparr>) =
     \<lparr>crop_x = 80, crop_y = 30, crop_width = 270, crop_height = 270, crop_unit = Px\<rparr> \<and>
   \<bar>crop_width (crop (handlePointerMove \<lparr>width = 400, height = 300, aspectRatio = 1\<rparr>
     (handlePointerDown (initEffect \<lparr>width = 400, height = 300, aspectRatio = 1\<rparr>
         (initialState \<lparr>width = 400, height = 300, aspectRatio = 1\<rparr>))
         \<lparr>clientX = 320, clientY = 270\<rparr> ''se'')
     \<lparr>clientX = 900, clientY = 900\<rparr>)) /
    crop_height (crop (handlePointerMove \<lparr>width = 400, height = 300, aspectRatio = 1\<rparr>
     (handlePointerDown (initEffect \<lparr>width = 400, height = 300, aspectRatio = 1\<rparr>
         (initialState \<lparr>width = 400, height = 300, aspectRatio = 1\<rparr>))
         \<lparr>clientX = 320, clientY = 270\<rparr> ''se'')
     \<lparr>clientX = 900, clientY = 900\<rparr>)) - 1\<bar> < 1 / 1000"
  using ratio_locked_after_resize
    [of "handlePointerDown (initEffect \<lparr>width = 400, height = 300, aspectRatio = 1\<rparr>
            (initialState \<lparr>width = 400, height = 300, aspectRatio = 1\<rparr>))
            \<lparr>clientX = 320, clientY = 270\<rparr> ''se''"
        "\<lparr>width = 400, height = 300, aspectRatio = 1\<rparr>" "1 / 1000"
        "\<lparr>clientX = 900, clientY = 900\<rparr>"]
  by (simp add: overlay_defs)

subsection \<open>Container bounds\<close>

text \<open>
  C2, as stated, fails. In a 40 by 40 container with no ratio locked the initial region
  is 32 by 32 at (4, 4), inside the container. The first update of a drag on the \<open>se\<close>
  handle sets width and height to the minimum 50, and the region then ends at 54,
  outside the container.
\<close>

theorem resize_leaves_small_container:
  "insideContainer \<lparr>width = 40, height = 40, aspectRatio = 0\<rparr>
     (crop (handlePointerDown (initEffect \<lparr>width = 40, height = 40, aspectRatio = 0\<rparr>
              (initialState \<lparr>width = 40, height = 40, aspectRatio = 0\<rparr>))
            \<lparr>clientX = 36, clientY = 36\<rparr> ''se'')) \<and>
   crop (handlePointerMove \<lparr>width = 40, height = 40, aspectRatio = 0\<rparr>
        (handlePointerDown (initEffect \<lparr>width = 40, height = 40, aspectRatio = 0\<rparr>
              (initialState \<lparr>width = 40, height = 40, aspectRatio = 0\<rparr>))
            \<lparr>clientX = 36, clientY = 36\<rparr> ''se'')
        \<lparr>clientX = 37, clientY = 37\<rparr>) =
     \<lparr>crop_x = 4, crop_y = 4, crop_width = 50, crop_height = 50, crop_unit = Px\<rparr> \<and>
   \<not> insideContainer \<lparr>width = 40, height = 40, aspectRatio = 0\<rparr>
     (crop (handlePointerMove \<lparr>width = 40, height = 40, aspectRatio = 0\<rparr>
        (handlePointerDown (initEffect \<lparr>width = 40, height = 40, aspectRatio = 0\<rparr>
              (initialState \<lparr>width = 40, height = 40, aspectRatio = 0\<rparr>))
            \<lparr>clientX = 36, clientY = 36\<rparr> ''se'')
        \<lparr>clientX = 37, clientY = 37\<rparr>))"
  by (simp add: overlay_defs)

text \<open>
  A pointer-move event outside a drag, or during a move drag, keeps a region inside the
  container; it needs nothing but that the region is inside before.
\<close>

lemma move_inside:
  assumes ins: "insideContainer p (crop st)"
    and nr: "\<not> isDragging st \<or> dragHandle st = Some ''move''"
  shows "insideContainer p (crop (handlePointerMove p st e))"
proof (cases "isDragging st")
  case False
  then show ?thesis using ins by (simp add: handlePointerMove_def)
next
  case True
  with nr have m: "dragHandle st = Some ''move''" by simp
  show ?thesis using ins True
    by (auto simp: handlePointerMove_def nextCrop_move [OF m] insideContainer_def max_def min_def)
qed

text \<open>
  A resize with no ratio locked: the outer \<open>Math.max(50, ...)\<close> decides. The region
  stays inside exactly when 50 fits between its origin and each edge the handle names.
\<close>

lemma free_resize_inside_iff:
  assumes ins: "insideContainer p (crop st)" and free: "aspectRatio p = 0"
    and drag: "isDragging st" and nm: "dragHandle st \<noteq> Some ''move''"
  shows "insideContainer p (crop (handlePointerMove p st e)) \<longleftrightarrow>
           (handleIncludes (dragHandle st) CHR ''e'' \<longrightarrow> 50 \<le> width p - crop_x (crop st)) \<and>
           (handleIncludes (dragHandle st) CHR ''s'' \<longrightarrow> 50 \<le> height p - crop_y (crop st))"
proof -
  let ?n = "resizeEdges p st (clientX e - start_x (startPos st))
                             (clientY e - start_y (startPos st))"
  have c: "crop (handlePointerMove p st e) = ?n"
    using drag nm free by (simp add: handlePointerMove_def nextCrop_resize enforceAspect_free)
  have w: "crop_x (crop st) + crop_width ?n \<le> width p \<longleftrightarrow>
             (handleIncludes (dragHandle st) CHR ''e'' \<longrightarrow> 50 \<le> width p - crop_x (crop st))"
    using ins by (auto simp: resizeEdges_width insideContainer_def max_def min_def)
  have h: "crop_y (crop st) + crop_height ?n \<le> height p \<longleftrightarrow>
             (handleIncludes (dragHandle st) CHR ''s'' \<longrightarrow> 50 \<le> height p - crop_y (crop st))"
    using ins by (auto simp: resizeEdges_height insideContainer_def max_def min_def)
  have "insideContainer p ?n \<longleftrightarrow>
          crop_x (crop st) + crop_width ?n \<le> width p \<and>
          crop_y (crop st) + crop_height ?n \<le> height p"
    using ins by (simp add: insideContainer_def resizeEdges_xy)
  then show ?thesis by (simp only: c w h)
qed

text \<open>
  A resize with a negative ratio: the second boundary check yields a width that is not
  positive, so the region stays inside when its origin is within the container.
\<close>

lemma enforceAspect_inside_neg:
  assumes r: "aspectRatio p < 0"
    and x: "crop_x n \<le> width p" and y: "crop_y n \<le> height p"
  shows "crop_x n + crop_width (enforceAspect p st n) \<le> width p \<and>
         crop_y n + crop_height (enforceAspect p st n) \<le> height p"
proof -
  let ?r = "aspectRatio p"
  have r0: "?r \<noteq> 0" using r by simp
  define n3 where "n3 = (if handleIncludes (dragHandle st) CHR ''e''
                   then n\<lparr>crop_height := crop_width n / ?r\<rparr> else n)"
  define n4 where "n4 = (if handleIncludes (dragHandle st) CHR ''s''
                   then n3\<lparr>crop_width := crop_height n3 * ?r\<rparr> else n3)"
  define n5 where "n5 = (if crop_width n4 + crop_x n4 > width p
                   then n4\<lparr>crop_width := width p - crop_x n4,
                            crop_height := (width p - crop_x n4) / ?r\<rparr>
                   else n4)"
  define n6 where "n6 = (if crop_height n5 + crop_y n5 > height p
                   then n5\<lparr>crop_height := height p - crop_y n5,
                            crop_width := (height p - crop_y n5) * ?r\<rparr>
                   else n5)"
  have E: "enforceAspect p st n = n6"
    using r0 by (simp add: enforceAspect_def Let_def n3_def n4_def n5_def n6_def)
  have xy: "crop_x n5 = crop_x n" "crop_y n5 = crop_y n" "crop_x n4 = crop_x n" "crop_y n4 = crop_y n"
    by (simp_all add: n3_def n4_def n5_def)
  have w5: "crop_x n + crop_width n5 \<le> width p"
    by (simp add: n5_def xy)
  show ?thesis
  proof (cases "crop_height n5 + crop_y n5 > height p")
    case False
    then show ?thesis using w5 by (simp add: E n6_def xy)
  next
    case True
    have "0 \<le> height p - crop_y n" using y by simp
    then have "(height p - crop_y n) * ?r \<le> 0"
      using r by (simp add: mult_nonneg_nonpos)
    then have "crop_x n + (height p - crop_y n) * ?r \<le> width p" using x by simp
    then show ?thesis using True by (simp add: E n6_def xy)
  qed
qed

lemma locked_resize_inside:
  assumes ins: "insideContainer p (crop st)" and locked: "aspectRatio p \<noteq> 0"
    and drag: "isDragging st" and nm: "dragHandle st \<noteq> Some ''move''"
    and neg: "aspectRatio p < 0 \<longrightarrow> crop_x (crop st) \<le> width p \<and> crop_y (crop st) \<le> height p"
  shows "insideContainer p (crop (handlePointerMove p st e))"
proof -
  let ?n = "resizeEdges p st (clientX e - start_x (startPos st))
                             (clientY e - start_y (startPos st))"
  have c: "crop (handlePointerMove p st e) = enforceAspect p st ?n"
    using drag nm by (simp add: handlePointerMove_def nextCrop_resize)
  have "crop_x ?n + crop_width (enforceAspect p st ?n) \<le> width p \<and>
        crop_y ?n + crop_height (enforceAspect p st ?n) \<le> height p"
  proof (cases "0 < aspectRatio p")
    case True
    then show ?thesis
      by (rule enforceAspect_inside)
         (use ins in \<open>auto simp: insideContainer_def resizeEdges_xy
               resizeEdges_width resizeEdges_height\<close>)
  next
    case False
    with locked have r: "aspectRatio p < 0" by simp
    with neg have "crop_x ?n \<le> width p" "crop_y ?n \<le> height p"
      by (simp_all add: resizeEdges_xy)
    with r show ?thesis by (rule enforceAspect_inside_neg)
  qed
  then show ?thesis using ins
    by (simp add: c insideContainer_def enforceAspect_xy resizeEdges_xy)
qed

text \<open>
  The condition on the origin under a negative ratio cannot be dropped. With the ratio
  \<open>- 1\<close> in a 100 by 100 container, the region (90, 120, 10, - 30) satisfies the four
  inequalities of \<open>insideContainer\<close>, and a resize with the \<open>se\<close> handle makes it
  (90, 120, 20, - 20), which ends at 110.
\<close>

lemma negative_ratio_resize:
  "insideContainer \<lparr>width = 100, height = 100, aspectRatio = - 1\<rparr>
     \<lparr>crop_x = 90, crop_y = 120, crop_width = 10, crop_height = - 30, crop_unit = Px\<rparr> \<and>
   crop (handlePointerMove \<lparr>width = 100, height = 100, aspectRatio = - 1\<rparr>
      \<lparr>crop = \<lparr>crop_x = 90, crop_y = 120, crop_width = 10, crop_height = - 30, crop_unit = Px\<rparr>,
        isDragging = True, dragHandle = Some ''se'',
        startPos = \<lparr>start_x = 0, start_y = 0, cx = 90, cy = 120, cw = 10, ch = - 30\<rparr>\<rparr>
      \<lparr>clientX = 0, clientY = 0\<rparr>) =
     \<lparr>crop_x = 90, crop_y = 120, crop_width = 20, crop_height = - 20, crop_unit = Px\<rparr>"
  by (simp add: overlay_defs)

text \<open>
  C2, amended. A pointer-move event on a region inside the container yields a region
  inside the container, with one exception: during a resize drag with no ratio locked,
  the resulting region is inside the container exactly when the origin of the region is
  at least 50 from the right edge of the container (\<open>50 \<le> W - x\<close>, if the handle
  names the east edge) and at least 50 from the bottom edge (\<open>50 \<le> H - y\<close>, if it
  names the south edge). Events outside a drag, move drags and resize drags under a
  positive ratio need no condition; for a resize drag under a negative ratio the origin
  of the region is taken to lie within the container (\<open>x \<le> W\<close>, \<open>y \<le> H\<close>).
\<close>

theorem drag_stays_inside_container:
  assumes ins: "insideContainer p (crop st)"
    and neg: "isDragging st \<and> dragHandle st \<noteq> Some ''move'' \<and> aspectRatio p < 0 \<longrightarrow>
              crop_x (crop st) \<le> width p \<and> crop_y (crop st) \<le> height p"
  shows "insideContainer p (crop (handlePointerMove p st e)) \<longleftrightarrow>
           (isDragging st \<and> dragHandle st \<noteq> Some ''move'' \<and> aspectRatio p = 0 \<longrightarrow>
              (handleIncludes (dragHandle st) CHR ''e'' \<longrightarrow> 50 \<le> width p - crop_x (crop st)) \<and>
              (handleIncludes (dragHandle st) CHR ''s'' \<longrightarrow> 50 \<le> height p - crop_y (crop st)))"
proof (cases "isDragging st \<and> dragHandle st \<noteq> Some ''move''")
  case False
  then have "insideContainer p (crop (handlePointerMove p st e))"
    using ins by (intro move_inside) auto
  then show ?thesis using False by auto
next
  case resize: True
  show ?thesis
  proof (cases "aspectRatio p = 0")
    case True
    then show ?thesis using resize free_resize_inside_iff [OF ins True, of e] by simp
  next
    case False
    have "insideContainer p (crop (handlePointerMove p st e))"
      by (rule locked_resize_inside [OF ins False]) (use resize neg in auto)
    then show ?thesis using False by simp
  qed
qed

text \<open>
  Four inputs. In a 400 by 300 container with no ratio locked, the initial region
  (40, 30, 320, 240) dragged by its \<open>se\<close> handle far beyond the container stops at the
  edges. In a 40 by 40 container with no ratio locked, a move drag takes the initial
  region (4, 4, 32, 32) to (8, 8, 32, 32), inside, and a resize drag takes it outside,
  the origin being only 36 from the edges. With the ratio \<open>- 1\<close> in a 400 by 300
  container, a resize of (40, 30, 320, 240) yields (40, 30, 360, - 360).
\<close>

theorem drag_stays_inside_container_witness:
  "insideContainer \<lparr>width = 400, height = 300, aspectRatio = 0\<rparr>
     (initCrop \<lparr>width = 400, height = 300, aspectRatio = 0\<rparr>) \<and>
   crop (handlePointerMove \<lparr>width = 400, height = 300, aspectRatio = 0\<rparr>
        (handlePointerDown (initEffect \<lparr>width = 400, height = 300, aspectRatio = 0\<rparr>
              (initialState \<lparr>width = 400, height = 300, aspectRatio = 0\<rparr>))
            \<lparr>clientX = 360, clientY = 270\<rparr> ''se'')
        \<lparr>clientX = 900, clientY = 900\<rparr>) =
     \<lparr>crop_x = 40, crop_y = 30, crop_width = 360, crop_height = 270, crop_unit = Px\<rparr> \<and>
   insideContainer \<lparr>width = 400, height = 300, aspectRatio = 0\<rparr>
     (crop (handlePointerMove \<lparr>width = 400, height = 300, aspectRatio = 0\<rparr>
        (handlePointerDown (initEffect \<lparr>width = 400, height = 300, aspectRatio = 0\<rparr>
              (initialState \<lparr>width = 400, height = 300, aspectRatio = 0\<rparr>))
            \<lparr>clientX = 360, clientY = 270\<rparr> ''se'')
        \<lparr>clientX = 900, clientY = 900\<rparr>)) \<and>
   insideContainer \<lparr>width = 40, height = 40, aspectRatio = 0\<rparr>
     (initCrop \<lparr>width = 40, height = 40, aspectRatio = 0\<rparr>) \<and>
   crop (handlePointerMove \<lparr>width = 40, height = 40, aspectRatio = 0\<rparr>
        (handlePointerDown (initEffect \<lparr>width = 40, height = 40, aspectRatio = 0\<rparr>
              (initialState \<lparr>width = 40, height = 40, aspectRatio = 0\<rparr>))
            \<lparr>clientX = 20, clientY = 20\<rparr> ''move'')
        \<lparr>clientX = 30, clientY = 30\<rparr>) =
     \<lparr>crop_x = 8, crop_y = 8, crop_width = 32, crop_height = 32, crop_unit = Px\<rparr> \<and>
   insideContainer \<lparr>width = 40, height = 40, aspectRatio = 0\<rparr>
     (crop (handlePointerMove \<lparr>width = 40, height = 40, aspectRatio = 0\<rparr>
        (handlePointerDown (initEffect \<lparr>width = 40, height = 40, aspectRatio = 0\<rparr>
              (initialState \<lparr>width = 40, height = 40, aspectRatio = 0\<rparr>))
            \<lparr>clientX = 20, clientY = 20\<rparr> ''move'')
        \<lparr>clientX = 30, clientY = 30\<rparr>)) \<and>
   \<not> (50::real) \<le> 40 - crop_x (initCrop \<lparr>width = 40, height = 40, aspectRatio = 0\<rparr>) \<and>
   \<not> insideContainer \<lparr>width = 40, height = 40, aspectRatio = 0\<rparr>
     (crop (handlePointerMove \<lparr>width = 40, height = 40, aspectRatio = 0\<rparr>
        (handlePointerDown (initEffect \<lparr>width = 40, height = 40, aspectRatio = 0\<rparr>
              (initialState \<lparr>width = 40, height = 40, aspectRatio = 0\<rparr>))
            \<lparr>clientX = 36, clientY = 36\<rparr> ''se'')
        \<lparr>clientX = 37, clientY = 37\<rparr>)) \<and>
   insideContainer \<lparr>width = 400, height = 300, aspectRatio = - 1\<rparr>
     \<lparr>crop_x = 40, crop_y = 30, crop_width = 320, crop_height = 240, crop_unit = Px\<rparr> \<and>
   (40::real) \<le> 400 \<and> (30::real) \<le> 300 \<and>
   insideContainer \<lparr>width = 400, height = 300, aspectRatio = - 1\<rparr>
     (crop (handlePointerMove \<lparr>width = 400, height = 300, aspectRatio = - 1\<rparr>
        \<lparr>crop = \<lparr>crop_x = 40, crop_y = 30, crop_width = 320, crop_height = 240, crop_unit = Px\<rparr>,
          isDragging = True, dragHandle = Some ''se'',
          startPos = \<lparr>start_x = 360, start_y = 270, cx = 40, cy = 30, cw = 320, ch = 240\<rparr>\<rparr>
        \<lparr>clientX = 900, clientY = 900\<rparr>))"
  using drag_stays_inside_container
    [of "\<lparr>width = 400, height = 300, aspectRatio = 0\<rparr>"
        "handlePointerDown (initEffect \<lparr>width = 400, height = 300, aspectRatio = 0\<rparr>
              (initialState \<lparr>width = 400, height = 300, aspectRatio = 0\<rparr>))
            \<lparr>clientX = 360, clientY = 270\<rparr> ''se''"
        "\<lparr>clientX = 900, clientY = 900\<rparr>"]
    drag_stays_inside_container
    [of "\<lparr>width = 40, height = 40, aspectRatio = 0\<rparr>"
        "handlePointerDown (initEffect \<lparr>width = 40, height = 40, aspectRatio = 0\<rparr>
              (initialState \<lparr>width = 40, height = 40, aspectRatio = 0\<rparr>))
            \<lparr>clientX = 20, clientY = 20\<rparr> ''move''"
        "\<lparr>clientX = 30, clientY = 30\<rparr>"]
    drag_stays_inside_container
    [of "\<lparr>width = 40, height = 40, aspectRatio = 0\<rparr>"
        "handlePointerDown (initEffect \<lparr>width = 40, height = 40, aspectRatio = 0\<rparr>
              (initialState \<lparr>width = 40, height = 40, aspectRatio = 0\<rparr>))
            \<lparr>clientX = 36, clientY = 36\<rparr> ''se''"
        "\<lparr>clientX = 37, clientY = 37\<rparr>"]
    drag_stays_inside_container
    [of "\<lparr>width = 400, height = 300, aspectRatio = - 1\<rparr>"
        "\<lparr>crop = \<lparr>crop_x = 40, crop_y = 30, crop_width = 320, crop_height = 240, crop_unit = Px\<rparr>,
          isDragging = True, dragHandle = Some ''se'',
          startPos = \<lparr>start_x = 360, start_y = 270, cx = 40, cy = 30, cw = 320, ch = 240\<rparr>\<rparr>"
        "\<lparr>clientX = 900, clientY = 900\<rparr>"]
  by (simp add: overlay_defs)

subsection \<open>Minimum size\<close>

text \<open>
  C3, as stated, fails, in both places it names. Initialization in a 50 by 50 container
  yields a region 40 wide: the effect has no minimum size. In a 400 by 300 container
  with the ratio 4:3 locked, shrinking with the \<open>se\<close> handle yields width 50 and
  height 37.5: the height that \<open>Math.max(50, ...)\<close> has just bounded is overwritten
  by \<open>width / aspectRatio\<close>.
\<close>

theorem min_size_violated:
  "crop_width (initCrop \<lparr>width = 50, height = 50, aspectRatio = 0\<rparr>) = 40 \<and>
   crop (handlePointerMove \<lparr>width = 400, height = 300, aspectRatio = 4 / 3\<rparr>
        (handlePointerDown (initEffect \<lparr>width = 400, height = 300, aspectRatio = 4 / 3\<rparr>
            (initialState \<lparr>width = 400, height = 300, aspectRatio = 4 / 3\<rparr>))
            \<lparr>clientX = 360, clientY = 270\<rparr> ''se'')
        \<lparr>clientX = 60, clientY = - 30\<rparr>) =
     \<lparr>crop_x = 40, crop_y = 30, crop_width = 50, crop_height = 75 / 2, crop_unit = Px\<rparr> \<and>
   crop_height (crop (handlePointerMove \<lparr>width = 400, height = 300, aspectRatio = 4 / 3\<rparr>
        (handlePointerDown (initEffect \<lparr>width = 400, height = 300, aspectRatio = 4 / 3\<rparr>
            (initialState \<lparr>width = 400, height = 300, aspectRatio = 4 / 3\<rparr>))
            \<lparr>clientX = 360, clientY = 270\<rparr> ''se'')
        \<lparr>clientX = 60, clientY = - 30\<rparr>)) < 50"
  by (simp add: overlay_defs)

text \<open>
  The initial region with no ratio locked is 80% of the container, so it has the minimum
  size exactly when the container is at least 62.5 wide and high.
\<close>

lemma initCrop_min_size_free:
  assumes "aspectRatio p = 0"
  shows "50 \<le> crop_width (initCrop p) \<and> 50 \<le> crop_height (initCrop p) \<longleftrightarrow>
           62.5 \<le> width p \<and> 62.5 \<le> height p"
  using assms by (auto simp: initCrop_def Let_def)

text \<open>
  The initial region under a positive ratio \<open>r\<close> is the largest rectangle of that ratio
  in 80% of the container. It has the minimum size exactly when a rectangle of ratio
  \<open>r\<close> with both sides at least 50 fits in 80% of the container.
\<close>

lemma initCrop_min_size_locked:
  assumes w: "0 < width p" and h: "0 < height p" and r: "0 < aspectRatio p"
  shows "50 \<le> crop_width (initCrop p) \<and> 50 \<le> crop_height (initCrop p) \<longleftrightarrow>
           50 \<le> width p * 0.8 \<and> 50 * aspectRatio p \<le> width p * 0.8 \<and>
           50 \<le> height p * 0.8 \<and> 50 \<le> height p * 0.8 * aspectRatio p"
proof (cases "width p / height p > aspectRatio p")
  case True
  then have wide: "height p * aspectRatio p < width p"
    using h by (simp add: field_simps)
  have c: "crop_width (initCrop p) = height p * 0.8 * aspectRatio p"
          "crop_height (initCrop p) = height p * 0.8"
    using True r by (simp_all add: initCrop_def Let_def)
  show ?thesis
  proof
    assume a: "50 \<le> crop_width (initCrop p) \<and> 50 \<le> crop_height (initCrop p)"
    then have a1: "50 \<le> height p * 0.8 * aspectRatio p" and a2: "50 \<le> height p * 0.8"
      by (simp_all add: c)
    have lt: "height p * 0.8 * aspectRatio p < width p * 0.8"
      using wide by (simp add: mult.commute)
    with a1 have b1: "50 \<le> width p * 0.8" by linarith
    have "50 * aspectRatio p \<le> height p * 0.8 * aspectRatio p"
      using a2 r by (simp add: mult_right_mono)
    also have "\<dots> < width p * 0.8" by (rule lt)
    finally have b2: "50 * aspectRatio p \<le> width p * 0.8" by linarith
    show "50 \<le> width p * 0.8 \<and> 50 * aspectRatio p \<le> width p * 0.8 \<and>
           50 \<le> height p * 0.8 \<and> 50 \<le> height p * 0.8 * aspectRatio p"
      using a1 a2 b1 b2 by simp
  next
    assume "50 \<le> width p * 0.8 \<and> 50 * aspectRatio p \<le> width p * 0.8 \<and>
           50 \<le> height p * 0.8 \<and> 50 \<le> height p * 0.8 * aspectRatio p"
    then show "50 \<le> crop_width (initCrop p) \<and> 50 \<le> crop_height (initCrop p)"
      by (simp add: c)
  qed
next
  case False
  then have narrow: "width p \<le> height p * aspectRatio p"
    using h by (simp add: field_simps)
  have c: "crop_width (initCrop p) = width p * 0.8"
          "crop_height (initCrop p) = width p * 0.8 / aspectRatio p"
    using False r by (simp_all add: initCrop_def Let_def)
  have d: "50 \<le> width p * 0.8 / aspectRatio p \<longleftrightarrow> 50 * aspectRatio p \<le> width p * 0.8"
    using r by (simp add: field_simps)
  show ?thesis
  proof
    assume a: "50 \<le> crop_width (initCrop p) \<and> 50 \<le> crop_height (initCrop p)"
    then have a1: "50 \<le> width p * 0.8" and a2: "50 * aspectRatio p \<le> width p * 0.8"
      using d by (simp_all add: c)
    have le: "width p * 0.8 \<le> height p * 0.8 * aspectRatio p"
      using narrow by (simp add: mult.commute)
    with a1 have b1: "50 \<le> height p * 0.8 * aspectRatio p" by linarith
    from a2 le have "50 * aspectRatio p \<le> (height p * 0.8) * aspectRatio p" by linarith
    then have b2: "50 \<le> height p * 0.8" using r by (simp only: mult_le_cancel_right)
    show "50 \<le> width p * 0.8 \<and> 50 * aspectRatio p \<le> width p * 0.8 \<and>
           50 \<le> height p * 0.8 \<and> 50 \<le> height p * 0.8 * aspectRatio p"
      using a1 a2 b1 b2 by simp
  next
    assume "50 \<le> width p * 0.8 \<and> 50 * aspectRatio p \<le> width p * 0.8 \<and>
           50 \<le> height p * 0.8 \<and> 50 \<le> height p * 0.8 * aspectRatio p"
    then show "50 \<le> crop_width (initCrop p) \<and> 50 \<le> crop_height (initCrop p)"
      using d by (simp add: c)
  qed
qed

lemma pointerMove_size_unchanged:
  assumes "\<not> isDragging st \<or> dragHandle st = Some ''move''"
  shows "crop_width (crop (handlePointerMove p st e)) = crop_width (crop st) \<and>
         crop_height (crop (handlePointerMove p st e)) = crop_height (crop st)"
  using assms by (auto simp: handlePointerMove_def nextCrop_move)

lemma free_resize_min_size:
  assumes "isDragging st" and "dragHandle st \<noteq> Some ''move''" and "aspectRatio p = 0"
  shows "(handleIncludes (dragHandle st) CHR ''e'' \<longrightarrow>
            50 \<le> crop_width (crop (handlePointerMove p st e))) \<and>
         (handleIncludes (dragHandle st) CHR ''s'' \<longrightarrow>
            50 \<le> crop_height (crop (handlePointerMove p st e))) \<and>
         (\<not> handleIncludes (dragHandle st) CHR ''e'' \<longrightarrow>
            crop_width (crop (handlePointerMove p st e)) = crop_width (crop st)) \<and>
         (\<not> handleIncludes (dragHandle st) CHR ''s'' \<longrightarrow>
            crop_height (crop (handlePointerMove p st e)) = crop_height (crop st))"
  using assms
  by (simp add: handlePointerMove_def nextCrop_resize enforceAspect_free
        resizeEdges_width resizeEdges_height)

text \<open>
  C3, amended. The initial region has width and height at least 50 exactly when: with no
  ratio locked, the container is at least 62.5 wide and high; with a positive ratio \<open>r\<close>
  locked (container of positive width \<open>W\<close> and height \<open>H\<close>), \<open>0.8 W \<ge> 50\<close>,
  \<open>0.8 W \<ge> 50 r\<close>, \<open>0.8 H \<ge> 50\<close> and \<open>0.8 H r \<ge> 50\<close>. A pointer-move event
  outside a drag or during a move drag, under any ratio, leaves width and height as they
  were. A pointer-move event during a resize drag with no ratio locked makes each
  dimension the handle names (\<open>e\<close>: width, \<open>s\<close>: height) at least 50, whatever it was
  before, and leaves a dimension the handle does not name as it was; so after a resize
  with the \<open>se\<close> handle both are at least 50. The statement does not cover the result
  of a resize drag under a locked ratio.
\<close>

theorem min_size_kept:
  "(aspectRatio p = 0 \<longrightarrow>
      (50 \<le> crop_width (initCrop p) \<and> 50 \<le> crop_height (initCrop p) \<longleftrightarrow>
         62.5 \<le> width p \<and> 62.5 \<le> height p)) \<and>
   (0 < width p \<and> 0 < height p \<and> 0 < aspectRatio p \<longrightarrow>
      (50 \<le> crop_width (initCrop p) \<and> 50 \<le> crop_height (initCrop p) \<longleftrightarrow>
         50 \<le> width p * 0.8 \<and> 50 * aspectRatio p \<le> width p * 0.8 \<and>
         50 \<le> height p * 0.8 \<and> 50 \<le> height p * 0.8 * aspectRatio p)) \<and>
   (\<not> isDragging st \<or> dragHandle st = Some ''move'' \<longrightarrow>
      crop_width (crop (handlePointerMove p st e)) = crop_width (crop st) \<and>
      crop_height (crop (handlePointerMove p st e)) = crop_height (crop st)) \<and>
   (isDragging st \<and> dragHandle st \<noteq> Some ''move'' \<and> aspectRatio p = 0 \<longrightarrow>
      (handleIncludes (dragHandle st) CHR ''e'' \<longrightarrow>
         50 \<le> crop_width (crop (handlePointerMove p st e))) \<and>
      (handleIncludes (dragHandle st) CHR ''s'' \<longrightarrow>
         50 \<le> crop_height (crop (handlePointerMove p st e))) \<and>
      (\<not> handleIncludes (dragHandle st) CHR ''e'' \<longrightarrow>
         crop_width (crop (handlePointerMove p st e)) = crop_width (crop st)) \<and>
      (\<not> handleIncludes (dragHandle st) CHR ''s'' \<longrightarrow>
         crop_height (crop (handlePointerMove p st e)) = crop_height (crop st)))"
proof (intro conjI)
  show "aspectRatio p = 0 \<longrightarrow>
      (50 \<le> crop_width (initCrop p) \<and> 50 \<le> crop_height (initCrop p) \<longleftrightarrow>
         62.5 \<le> width p \<and> 62.5 \<le> height p)"
    using initCrop_min_size_free [of p] by blast
  show "0 < width p \<and> 0 < height p \<and> 0 < aspectRatio p \<longrightarrow>
      (50 \<le> crop_width (initCrop p) \<and> 50 \<le> crop_height (initCrop p) \<longleftrightarrow>
         50 \<le> width p * 0.8 \<and> 50 * aspectRatio p \<le> width p * 0.8 \<and>
         50 \<le> height p * 0.8 \<and> 50 \<le> height p * 0.8 * aspectRatio p)"
    using initCrop_min_size_locked [of p] by blast
  show "\<not> isDragging st \<or> dragHandle st = Some ''move'' \<longrightarrow>
      crop_width (crop (handlePointerMove p st e)) = crop_width (crop st) \<and>
      crop_height (crop (handlePointerMove p st e)) = crop_height (crop st)"
    using pointerMove_size_unchanged [of st p e] by blast
  show "isDragging st \<and> dragHandle st \<noteq> Some ''move'' \<and> aspectRatio p = 0 \<longrightarrow>
      (handleIncludes (dragHandle st) CHR ''e'' \<longrightarrow>
         50 \<le> crop_width (crop (handlePointerMove p st e))) \<and>
      (handleIncludes (dragHandle st) CHR ''s'' \<longrightarrow>
         50 \<le> crop_height (crop (handlePointerMove p st e))) \<and>
      (\<not> handleIncludes (dragHandle st) CHR ''e'' \<longrightarrow>
         crop_width (crop (handlePointerMove p st e)) = crop_width (crop st)) \<and>
      (\<not> handleIncludes (dragHandle st) CHR ''s'' \<longrightarrow>
         crop_height (crop (handlePointerMove p st e)) = crop_height (crop st))"
    using free_resize_min_size [of st p e] by blast
qed

text \<open>
  A 400 by 300 container. With no ratio locked the initial region is 320 by 240, and a
  resize with the \<open>se\<close> handle of a region that is only 20 by 20 yields 50 by 50. With
  the ratio 4:3 locked the initial region is 320 by 240 as well, and a move drag keeps
  its size. In a 50 by 50 container with no ratio locked the initial region is 40 by 40.
\<close>

theorem min_size_kept_witness:
  "initCrop \<lparr>width = 400, height = 300, aspectRatio = 0\<rparr> =
     \<lparr>crop_x = 40, crop_y = 30, crop_width = 320, crop_height = 240, crop_unit = Px\<rparr> \<and>
   (62.5::real) \<le> 400 \<and> (62.5::real) \<le> 300 \<and>
   crop (handlePointerMove \<lparr>width = 400, height = 300, aspectRatio = 0\<rparr>
      \<lparr>crop = \<lparr>crop_x = 10, crop_y = 10, crop_width = 20, crop_height = 20, crop_unit = Px\<rparr>,
        isDragging = True, dragHandle = Some ''se'',
        startPos = \<lparr>start_x = 30, start_y = 30, cx = 10, cy = 10, cw = 20, ch = 20\<rparr>\<rparr>
      \<lparr>clientX = 31, clientY = 31\<rparr>) =
     \<lparr>crop_x = 10, crop_y = 10, crop_width = 50, crop_height = 50, crop_unit = Px\<rparr> \<and>
   initCrop \<lparr>width = 400, height = 300, aspectRatio = 4 / 3\<rparr> =
     \<lparr>crop_x = 40, crop_y = 30, crop_width = 320, crop_height = 240, crop_unit = Px\<rparr> \<and>
   (50::real) \<le> 400 * 0.8 \<and> (50::real) * (4 / 3) \<le> 400 * 0.8 \<and>
   (50::real) \<le> 300 * 0.8 \<and> (50::real) \<le> 300 * 0.8 * (4 / 3) \<and>
   crop (handlePointerMove \<lparr>width = 400, height = 300, aspectRatio = 4 / 3\<rparr>
        (handlePointerDown (initEffect \<lparr>width = 400, height = 300, aspectRatio = 4 / 3\<rparr>
            (initialState \<lparr>width = 400, height = 300, aspectRatio = 4 / 3\<rparr>))
            \<lparr>clientX = 100, clientY = 100\<rparr> ''move'')
        \<lparr>clientX = 110, clientY = 90\<rparr>) =
     \<lparr>crop_x = 50, crop_y = 20, crop_width = 320, crop_height = 240, crop_unit = Px\<rparr> \<and>
   \<not> (62.5::real) \<le> 50 \<and>
   \<not> 50 \<le> crop_width (initCrop \<lparr>width = 50, height = 50, aspectRatio = 0\<rparr>)"
  using min_size_kept
    [of "\<lparr>width = 400, height = 300, aspectRatio = 0\<rparr>"
        "\<lparr>crop = \<lparr>crop_x = 10, crop_y = 10, crop_width = 20, crop_height = 20, crop_unit = Px\<rparr>,
          isDragging = True, dragHandle = Some ''se'',
          startPos = \<lparr>start_x = 30, start_y = 30, cx = 10, cy = 10, cw = 20, ch = 20\<rparr>\<rparr>"
        "\<lparr>clientX = 31, clientY = 31\<rparr>"]
    min_size_kept
    [of "\<lparr>width = 400, height = 300, aspectRatio = 4 / 3\<rparr>"
        "handlePointerDown (initEffect \<lparr>width = 400, height = 300, aspectRatio = 4 / 3\<rparr>
            (initialState \<lparr>width = 400, height = 300, aspectRatio = 4 / 3\<rparr>))
            \<lparr>clientX = 100, clientY = 100\<rparr> ''move''"
        "\<lparr>clientX = 110, clientY = 90\<rparr>"]
    min_size_kept
    [of "\<lparr>width = 50, height = 50, aspectRatio = 0\<rparr>"
        "initialState \<lparr>width = 50, height = 50, aspectRatio = 0\<rparr>"
        "\<lparr>clientX = 0, clientY = 0\<rparr>"]
  by (simp add: overlay_defs)

subsection \<open>Initialization\<close>

text \<open>
  C6. For a container of positive width and height, the initial region is: with ratio 0,
  80% of the container in both dimensions; with a ratio below \<open>width / height\<close>,
  height-bound (\<open>initH = height * 0.8\<close>, \<open>initW = initH * ratio\<close>); otherwise
  width-bound (\<open>initW = width * 0.8\<close>, \<open>initH = initW / ratio\<close>). Its origin is
  \<open>((width - initW) / 2, (height - initH) / 2)\<close>, so it is centred, and for a ratio
  that is not negative it fits in 80% of the container.
\<close>

theorem initCrop_centered:
  assumes "0 < width p" and "0 < height p"
  shows "initCrop p =
           (let initW = (if aspectRatio p = 0 then width p * 0.8
                         else if width p / height p > aspectRatio p
                              then height p * 0.8 * aspectRatio p
                              else width p * 0.8);
                initH = (if aspectRatio p = 0 then height p * 0.8
                         else if width p / height p > aspectRatio p
                              then height p * 0.8
                              else width p * 0.8 / aspectRatio p)
            in \<lparr>crop_x = (width p - initW) / 2, crop_y = (height p - initH) / 2,
                crop_width = initW, crop_height = initH, crop_unit = Px\<rparr>) \<and>
         crop_x (initCrop p) + crop_width (initCrop p) / 2 = width p / 2 \<and>
         crop_y (initCrop p) + crop_height (initCrop p) / 2 = height p / 2 \<and>
         (0 \<le> aspectRatio p \<longrightarrow>
            crop_width (initCrop p) \<le> width p * 0.8 \<and>
            crop_height (initCrop p) \<le> height p * 0.8)"
proof (intro conjI impI)
  show "initCrop p =
           (let initW = (if aspectRatio p = 0 then width p * 0.8
                         else if width p / height p > aspectRatio p
                              then height p * 0.8 * aspectRatio p
                              else width p * 0.8);
                initH = (if aspectRatio p = 0 then height p * 0.8
                         else if width p / height p > aspectRatio p
                              then height p * 0.8
                              else width p * 0.8 / aspectRatio p)
            in \<lparr>crop_x = (width p - initW) / 2, crop_y = (height p - initH) / 2,
                crop_width = initW, crop_height = initH, crop_unit = Px\<rparr>)"
    by (simp add: initCrop_def Let_def)
  show "crop_x (initCrop p) + crop_width (initCrop p) / 2 = width p / 2"
    by (simp add: initCrop_def Let_def field_simps)
  show "crop_y (initCrop p) + crop_height (initCrop p) / 2 = height p / 2"
    by (simp add: initCrop_def Let_def field_simps)
next
  assume r: "0 \<le> aspectRatio p"
  show "crop_width (initCrop p) \<le> width p * 0.8"
    using assms r by (auto simp: initCrop_def Let_def field_simps)
  show "crop_height (initCrop p) \<le> height p * 0.8"
    using assms r by (auto simp: initCrop_def Let_def field_simps)
qed

text \<open>
  A 400 by 200 container with the ratio 1: \<open>400 / 200 > 1\<close>, so the region is
  height-bound, 160 by 160 at (120, 20).
\<close>

theorem initCrop_centered_witness:
  "(0::real) < 400 \<and> (0::real) < 200 \<and>
   initCrop \<lparr>width = 400, height = 200, aspectRatio = 1\<rparr> =
     \<lparr>crop_x = 120, crop_y = 20, crop_width = 160, crop_height = 160, crop_unit = Px\<rparr> \<and>
   crop_width (initCrop \<lparr>width = 400, height = 200, aspectRatio = 1\<rparr>) \<le> 400 * 0.8"
  using initCrop_centered [of "\<lparr>width = 400, height = 200, aspectRatio = 1\<rparr>"]
  by (simp add: Let_def)

section \<open>Properties of the image processor\<close>

text \<open>
  When the image has loaded, a context is available and the canvas encodes, the promise
  of \<open>processImage\<close> resolves, and the result is the following.
\<close>

lemma processImage_resolved:
  assumes "hasContext pf" and "hasBlob pf"
  shows "processImage pf (Resolved img) options =
     Resolved
       (let src = (case opt_crop options of
                      None \<Rightarrow> (0, 0, img_width img, img_height img)
                    | Some c \<Rightarrow>
                        if crop_unit c = Percent then
                          ((crop_x c / 100) * img_width img,
                           (crop_y c / 100) * img_height img,
                           (crop_width c / 100) * img_width img,
                           (crop_height c / 100) * img_height img)
                        else (crop_x c, crop_y c, crop_width c, crop_height c));
            k = (if scale options = 0 then 1 else scale options)
        in \<lparr>out_width = fst (snd (snd src)) * k, out_height = snd (snd (snd src)) * k,
            sx = fst src, sy = fst (snd src), sw = fst (snd (snd src)), sh = snd (snd (snd src)),
            dw = fst (snd (snd src)) * k, dh = snd (snd (snd src)) * k,
            mimeType = ''image/'' @ formatName (format options),
            out_quality = quality options\<rparr>)"
  using assms by (simp add: processImage_def Let_def split: prod.splits)

subsection \<open>Scaling\<close>

text \<open>
  C4. The result of \<open>processImage\<close> is the same whether \<open>maintainAspect\<close> is true or
  false, whatever the image, the other options and the platform. For a scale factor
  other than 0 (the options carry a factor between 0.1 and 4), the promise resolves when
  the platform yields a context and a blob, the destination width is the width of the
  source rectangle times \<open>scale\<close>, the destination height is its height times \<open>scale\<close>,
  and these are the sizes assigned to the canvas.
\<close>

theorem processImage_uniform_scale:
  "processImage pf loaded (options\<lparr>maintainAspect := True\<rparr>) =
     processImage pf loaded (options\<lparr>maintainAspect := False\<rparr>) \<and>
   (hasContext pf \<and> hasBlob pf \<and> scale options \<noteq> 0 \<longrightarrow>
      (\<exists>out. processImage pf (Resolved img) options = Resolved out \<and>
             dw out = sw out * scale options \<and> dh out = sh out * scale options \<and>
             out_width out = dw out \<and> out_height out = dh out))"
proof
  show "processImage pf loaded (options\<lparr>maintainAspect := True\<rparr>) =
     processImage pf loaded (options\<lparr>maintainAspect := False\<rparr>)"
    by (cases loaded) (simp_all add: processImage_def Let_def split: prod.splits)
next
  show "hasContext pf \<and> hasBlob pf \<and> scale options \<noteq> 0 \<longrightarrow>
      (\<exists>out. processImage pf (Resolved img) options = Resolved out \<and>
             dw out = sw out * scale options \<and> dh out = sh out * scale options \<and>
             out_width out = dw out \<and> out_height out = dh out)"
    by (simp add: processImage_resolved Let_def)
qed

text \<open>An 800 by 600 image, no crop, scale 1.5: the canvas is 1200 by 900.\<close>

theorem processImage_uniform_scale_witness:
  "hasContext \<lparr>hasContext = True, hasBlob = True\<rparr> \<and>
   hasBlob \<lparr>hasContext = True, hasBlob = True\<rparr> \<and>
   scale \<lparr>scale = 3 / 2, maintainAspect = False, opt_crop = None, format = Jpeg,
          quality = 9 / 10\<rparr> \<noteq> 0 \<and>
   processImage \<lparr>hasContext = True, hasBlob = True\<rparr>
       (Resolved \<lparr>img_width = 800, img_height = 600\<rparr>)
       \<lparr>scale = 3 / 2, maintainAspect = True, opt_crop = None, format = Jpeg,
         quality = 9 / 10\<rparr> =
     processImage \<lparr>hasContext = True, hasBlob = True\<rparr>
       (Resolved \<lparr>img_width = 800, img_height = 600\<rparr>)
       \<lparr>scale = 3 / 2, maintainAspect = False, opt_crop = None, format = Jpeg,
         quality = 9 / 10\<rparr> \<and>
   processImage \<lparr>hasContext = True, hasBlob = True\<rparr>
       (Resolved \<lparr>img_width = 800, img_height = 600\<rparr>)
       \<lparr>scale = 3 / 2, maintainAspect = False, opt_crop = None, format = Jpeg,
         quality = 9 / 10\<rparr> =
     Resolved \<lparr>out_width = 1200, out_height = 900, sx = 0, sy = 0, sw = 800, sh = 600,
               dw = 1200, dh = 900, mimeType = ''image/jpeg'', out_quality = 9 / 10\<rparr>"
  using processImage_uniform_scale
    [of "\<lparr>hasContext = True, hasBlob = True\<rparr>"
        "Resolved \<lparr>img_width = 800, img_height = 600\<rparr>"
        "\<lparr>scale = 3 / 2, maintainAspect = False, opt_crop = None, format = Jpeg,
          quality = 9 / 10\<rparr>"
        "\<lparr>img_width = 800, img_height = 600\<rparr>"]
  by (simp add: processImage_def)

text \<open>
  C9. With \<open>options.scale = 0\<close> the scale factor is 1: the promise resolves when the
  platform yields a context and a blob, and the destination width and height, which are
  the sizes assigned to the canvas, are the width and height of the source rectangle.
\<close>

theorem processImage_scale_zero:
  assumes "scale options = 0" and "hasContext pf" and "hasBlob pf"
  shows "\<exists>out. processImage pf (Resolved img) options = Resolved out \<and>
               dw out = sw out \<and> dh out = sh out \<and>
               out_width out = sw out \<and> out_height out = sh out"
  using assms by (simp add: processImage_resolved Let_def)

text \<open>An 800 by 600 image, no crop, scale 0: the canvas is 800 by 600.\<close>

theorem processImage_scale_zero_witness:
  "scale \<lparr>scale = 0, maintainAspect = True, opt_crop = None, format = Png, quality = 1\<rparr> = 0 \<and>
   hasContext \<lparr>hasContext = True, hasBlob = True\<rparr> \<and>
   hasBlob \<lparr>hasContext = True, hasBlob = True\<rparr> \<and>
   processImage \<lparr>hasContext = True, hasBlob = True\<rparr>
       (Resolved \<lparr>img_width = 800, img_height = 600\<rparr>)
       \<lparr>scale = 0, maintainAspect = True, opt_crop = None, format = Png, quality = 1\<rparr> =
     Resolved \<lparr>out_width = 800, out_height = 600, sx = 0, sy = 0, sw = 800, sh = 600,
               dw = 800, dh = 600, mimeType = ''image/png'', out_quality = 1\<rparr>"
  using processImage_scale_zero
    [of "\<lparr>scale = 0, maintainAspect = True, opt_crop = None, format = Png, quality = 1\<rparr>"
        "\<lparr>hasContext = True, hasBlob = True\<rparr>"
        "\<lparr>img_width = 800, img_height = 600\<rparr>"]
  by (simp add: processImage_def)

subsection \<open>The source rectangle\<close>

text \<open>
  C7. When the platform yields a context and a blob, \<open>processImage\<close> resolves, and its
  source rectangle is the whole image when \<open>options.crop\<close> is absent; for a crop in
  \<open>%\<close> each coordinate is multiplied by the image width (for x and width) or height
  (for y and height) divided by 100; for a crop in \<open>px\<close> the coordinates are taken as
  they are. Cropping a 1000 by 800 image to (100, 100, 400, 400) in \<open>px\<close> with scale
  0.5 gives a canvas of 200 by 200.
\<close>

theorem processImage_source_rect:
  "(hasContext pf \<and> hasBlob pf \<longrightarrow>
      (\<exists>out. processImage pf (Resolved img) options = Resolved out \<and>
         (opt_crop options = None \<longrightarrow>
            sx out = 0 \<and> sy out = 0 \<and> sw out = img_width img \<and> sh out = img_height img) \<and>
         (\<forall>c. opt_crop options = Some c \<longrightarrow>
            (crop_unit c = Percent \<longrightarrow>
               sx out = crop_x c * (img_width img / 100) \<and>
               sy out = crop_y c * (img_height img / 100) \<and>
               sw out = crop_width c * (img_width img / 100) \<and>
               sh out = crop_height c * (img_height img / 100)) \<and>
            (crop_unit c = Px \<longrightarrow>
               sx out = crop_x c \<and> sy out = crop_y c \<and>
               sw out = crop_width c \<and> sh out = crop_height c)))) \<and>
   (hasContext pf \<and> hasBlob pf \<longrightarrow>
      (\<exists>out. processImage pf (Resolved \<lparr>img_width = 1000, img_height = 800\<rparr>)
                (options\<lparr>scale := 1 / 2,
                   opt_crop := Some \<lparr>crop_x = 100, crop_y = 100, crop_width = 400,
                                     crop_height = 400, crop_unit = Px\<rparr>\<rparr>) = Resolved out \<and>
             out_width out = 200 \<and> out_height out = 200))"
  by (auto simp add: processImage_resolved Let_def)

text \<open>
  A 1000 by 800 image: without a crop the source rectangle is the image; the crop
  (10, 25, 50, 50) in \<open>%\<close> is the rectangle (100, 200, 500, 400); the crop
  (100, 100, 400, 400) in \<open>px\<close> is taken as it is and, at scale 0.5, gives 200 by 200.
\<close>

theorem processImage_source_rect_witness:
  "processImage \<lparr>hasContext = True, hasBlob = True\<rparr>
       (Resolved \<lparr>img_width = 1000, img_height = 800\<rparr>)
       \<lparr>scale = 1, maintainAspect = True, opt_crop = None, format = Png, quality = 1\<rparr> =
     Resolved \<lparr>out_width = 1000, out_height = 800, sx = 0, sy = 0, sw = 1000, sh = 800,
               dw = 1000, dh = 800, mimeType = ''image/png'', out_quality = 1\<rparr> \<and>
   processImage \<lparr>hasContext = True, hasBlob = True\<rparr>
       (Resolved \<lparr>img_width = 1000, img_height = 800\<rparr>)
       \<lparr>scale = 1, maintainAspect = True,
         opt_crop = Some \<lparr>crop_x = 10, crop_y = 25, crop_width = 50, crop_height = 50,
                           crop_unit = Percent\<rparr>,
         format = Png, quality = 1\<rparr> =
     Resolved \<lparr>out_width = 500, out_height = 400, sx = 100, sy = 200, sw = 500, sh = 400,
               dw = 500, dh = 400, mimeType = ''image/png'', out_quality = 1\<rparr> \<and>
   processImage \<lparr>hasContext = True, hasBlob = True\<rparr>
       (Resolved \<lparr>img_width = 1000, img_height = 800\<rparr>)
       \<lparr>scale = 1 / 2, maintainAspect = True,
         opt_crop = Some \<lparr>crop_x = 100, crop_y = 100, crop_width = 400, crop_height = 400,
                           crop_unit = Px\<rparr>,
         format = Png, quality = 1\<rparr> =
     Resolved \<lparr>out_width = 200, out_height = 200, sx = 100, sy = 100, sw = 400, sh = 400,
               dw = 200, dh = 200, mimeType = ''image/png'', out_quality = 1\<rparr>"
  using processImage_source_rect
    [of "\<lparr>hasContext = True, hasBlob = True\<rparr>" "\<lparr>img_width = 1000, img_height = 800\<rparr>"
        "\<lparr>scale = 1, maintainAspect = True, opt_crop = None, format = Png, quality = 1\<rparr>"]
    processImage_source_rect
    [of "\<lparr>hasContext = True, hasBlob = True\<rparr>" "\<lparr>img_width = 1000, img_height = 800\<rparr>"
        "\<lparr>scale = 1, maintainAspect = True,
          opt_crop = Some \<lparr>crop_x = 10, crop_y = 25, crop_width = 50, crop_height = 50,
                            crop_unit = Percent\<rparr>,
          format = Png, quality = 1\<rparr>"]
    processImage_source_rect
    [of "\<lparr>hasContext = True, hasBlob = True\<rparr>" "\<lparr>img_width = 1000, img_height = 800\<rparr>"
        "\<lparr>scale = 1 / 2, maintainAspect = True,
          opt_crop = Some \<lparr>crop_x = 100, crop_y = 100, crop_width = 400, crop_height = 400,
                            crop_unit = Px\<rparr>,
          format = Png, quality = 1\<rparr>"]
  by (simp add: processImage_def)

subsection \<open>Canvas expansion\<close>

text \<open>
  C5. For an image of positive width and height and a positive target ratio, when the
  platform yields a context and a blob, \<open>expandImageCanvas\<close> resolves with a canvas
  whose width is its height times the ratio, so \<open>newW / newH\<close> differs from the ratio
  by less than any positive \<open>eps\<close>. When the ratio exceeds \<open>width / height\<close> of the
  image the canvas keeps the height and is wider than the image; otherwise it keeps the
  width and is at least as high. The image is drawn at
  \<open>((newW - width) / 2, (newH - height) / 2)\<close> on the fill colour.
\<close>

theorem expandImageCanvas_ratio:
  assumes "0 < img_width img" and "0 < img_height img" and "0 < ratio"
    and "hasContext pf" and "hasBlob pf" and "0 < eps"
  shows "\<exists>out. expandImageCanvas pf (Resolved img) ratio fillColor = Resolved out \<and>
           newW out = newH out * ratio \<and> 0 < newH out \<and>
           \<bar>newW out / newH out - ratio\<bar> < eps \<and>
           (ratio > img_width img / img_height img \<longrightarrow>
              newH out = img_height img \<and> newW out = img_height img * ratio \<and>
              img_width img < newW out) \<and>
           (\<not> ratio > img_width img / img_height img \<longrightarrow>
              newW out = img_width img \<and> newH out = img_width img / ratio \<and>
              img_height img \<le> newH out) \<and>
           offset_x out = (newW out - img_width img) / 2 \<and>
           offset_y out = (newH out - img_height img) / 2 \<and>
           fillStyle out = fillColor"
  using assms
  by (auto simp add: expandImageCanvas_def Let_def field_simps)

text \<open>
  An 800 by 600 image expanded to 2:1 becomes 1200 by 600 with the image at (200, 0);
  expanded to 1:1 it becomes 800 by 800 with the image at (0, 100).
\<close>

theorem expandImageCanvas_ratio_witness:
  "(0::real) < 800 \<and> (0::real) < 600 \<and> (2::real) > 800 / 600 \<and> \<not> (1::real) > 800 / 600 \<and>
   expandImageCanvas \<lparr>hasContext = True, hasBlob = True\<rparr>
       (Resolved \<lparr>img_width = 800, img_height = 600\<rparr>) 2 ''white'' =
     Resolved \<lparr>newW = 1200, newH = 600, fillStyle = ''white'', offset_x = 200, offset_y = 0\<rparr> \<and>
   expandImageCanvas \<lparr>hasContext = True, hasBlob = True\<rparr>
       (Resolved \<lparr>img_width = 800, img_height = 600\<rparr>) 1 ''white'' =
     Resolved \<lparr>newW = 800, newH = 800, fillStyle = ''white'', offset_x = 0, offset_y = 100\<rparr>"
  using expandImageCanvas_ratio
    [of "\<lparr>img_width = 800, img_height = 600\<rparr>" 2 "\<lparr>hasContext = True, hasBlob = True\<rparr>"
        1 "''white''"]
    expandImageCanvas_ratio
    [of "\<lparr>img_width = 800, img_height = 600\<rparr>" 1 "\<lparr>hasContext = True, hasBlob = True\<rparr>"
        1 "''white''"]
  by (simp add: expandImageCanvas_def)

section \<open>Properties of the upload handler\<close>

text \<open>
  C8. \<open>handleFileUpload\<close> starts loading the file exactly when its type is one of
  \<open>image/jpeg\<close>, \<open>image/png\<close>, \<open>image/webp\<close> and its size is at most 10 MiB
  (10 * 1024 * 1024 bytes); it then clears the error message. For any other file it
  starts no load and sets an error message, which the upload screen shows; the image
  state, the preview and the mode are left as they were, so an application on the upload
  screen stays there. A file of type \<open>image/gif\<close> is rejected as an unsupported format.
\<close>

theorem handleFileUpload_accepts_iff:
  "(snd (handleFileUpload st url (Some f)) \<noteq> None \<longleftrightarrow>
      file_type f \<in> {''image/jpeg'', ''image/png'', ''image/webp''} \<and>
      file_size f \<le> 10 * 1024 * 1024) \<and>
   (snd (handleFileUpload st url (Some f)) \<noteq> None \<longrightarrow>
      handleFileUpload st url (Some f) =
        (st\<lparr>errorMessage := None\<rparr>, Some \<lparr>load_url = url, load_file = f\<rparr>)) \<and>
   (snd (handleFileUpload st url (Some f)) = None \<longrightarrow>
      errorMessage (fst (handleFileUpload st url (Some f))) =
        Some (if file_type f \<in> {''image/jpeg'', ''image/png'', ''image/webp''}
              then ''File too large. Max size is 10MB.''
              else ''Unsupported file format. Please use JPG, PNG, or WEBP.'') \<and>
      originalImage (fst (handleFileUpload st url (Some f))) = originalImage st \<and>
      previewUrl (fst (handleFileUpload st url (Some f))) = previewUrl st \<and>
      mode (fst (handleFileUpload st url (Some f))) = mode st) \<and>
   handleFileUpload st url (Some \<lparr>file_name = n, file_type = ''image/gif'', file_size = k\<rparr>) =
     (st\<lparr>errorMessage := Some ''Unsupported file format. Please use JPG, PNG, or WEBP.''\<rparr>, None)"
  by (simp add: handleFileUpload_def ALLOWED_TYPES_def MAX_FILE_SIZE_MB_def)

text \<open>
  On the upload screen with no image: a PNG of exactly 10 MiB is accepted, and a PNG
  one byte larger is rejected as too large, the mode staying \<open>UPLOAD\<close>.
\<close>

theorem handleFileUpload_accepts_iff_witness:
  "handleFileUpload
       \<lparr>mode = UPLOAD, originalImage = None, previewUrl = None, errorMessage = Some ''old''\<rparr>
       ''blob:1'' (Some \<lparr>file_name = ''a.png'', file_type = ''image/png'', file_size = 10485760\<rparr>) =
     (\<lparr>mode = UPLOAD, originalImage = None, previewUrl = None, errorMessage = None\<rparr>,
      Some \<lparr>load_url = ''blob:1'',
            load_file = \<lparr>file_name = ''a.png'', file_type = ''image/png'',
                          file_size = 10485760\<rparr>\<rparr>) \<and>
   snd (handleFileUpload
       \<lparr>mode = UPLOAD, originalImage = None, previewUrl = None, errorMessage = None\<rparr>
       ''blob:2'' (Some \<lparr>file_name = ''b.png'', file_type = ''image/png'', file_size = 10485761\<rparr>))
     = None \<and>
   errorMessage (fst (handleFileUpload
       \<lparr>mode = UPLOAD, originalImage = None, previewUrl = None, errorMessage = None\<rparr>
       ''blob:2'' (Some \<lparr>file_name = ''b.png'', file_type = ''image/png'', file_size = 10485761\<rparr>)))
     = Some ''File too large. Max size is 10MB.'' \<and>
   mode (fst (handleFileUpload
       \<lparr>mode = UPLOAD, originalImage = None, previewUrl = None, errorMessage = None\<rparr>
       ''blob:2'' (Some \<lparr>file_name = ''b.png'', file_type = ''image/png'', file_size = 10485761\<rparr>)))
     = UPLOAD"
  using handleFileUpload_accepts_iff
    [of "\<lparr>mode = UPLOAD, originalImage = None, previewUrl = None, errorMessage = Some ''old''\<rparr>"
        "''blob:1''"
        "\<lparr>file_name = ''a.png'', file_type = ''image/png'', file_size = 10485760\<rparr>"]
    handleFileUpload_accepts_iff
    [of "\<lparr>mode = UPLOAD, originalImage = None, previewUrl = None, errorMessage = None\<rparr>"
        "''blob:2''"
        "\<lparr>file_name = ''b.png'', file_type = ''image/png'', file_size = 10485761\<rparr>"]
  by simp

section \<open>Properties of the brush overlay\<close>

lemma brushRun_Nil: "brushRun st [] = st"
  by (simp add: brushRun_def)

lemma brushRun_Cons: "brushRun st (i # is) = brushRun (brushStep st i) is"
  by (simp add: brushRun_def)

lemma strokeOk_mono: "strokeOk D U s \<Longrightarrow> D \<subseteq> D' \<Longrightarrow> U \<subseteq> U' \<Longrightarrow> strokeOk D' U' s"
  by (auto simp: strokeOk_def)

lemma valuesOk_mono: "valuesOk D U v \<Longrightarrow> D \<subseteq> D' \<Longrightarrow> U \<subseteq> U' \<Longrightarrow> valuesOk D' U' v"
  by (auto simp: valuesOk_def intro: strokeOk_mono)

lemma brushInv_mono: "brushInv D U st \<Longrightarrow> D \<subseteq> D' \<Longrightarrow> U \<subseteq> U' \<Longrightarrow> brushInv D' U' st"
  by (auto simp: brushInv_def intro: valuesOk_mono)

text \<open>Only a pointer-up event changes the stroke sequence, by one stroke at its end.\<close>

lemma brushStep_strokes:
  "strokes (latest (brushStep st i)) = strokes (latest st) \<or>
   (\<exists>rect e. i = Pointer rect (PointerUp e) \<and> isDrawing (seen st) \<and>
      currentPoints (seen st) \<noteq> [] \<and>
      strokes (latest (brushStep st i)) =
        strokes (latest st) @ [\<lparr>stroke_points = currentPoints (seen st),
                                 stroke_size = brushSize (props st),
                                 stroke_color = maskColor\<rparr>])"
  by (cases "(st, i)" rule: brushStep.cases)
     (auto simp: brushRender_def brushPointerDown_def brushPointerMove_def brushPointerUp_def
        Let_def)

text \<open>Each handler and each render keeps the invariant.\<close>

lemma brushRender_inv: "brushInv D U st \<Longrightarrow> brushInv D U (brushRender p st)"
  by (simp add: brushInv_def brushRender_def)

lemma brushPointerDown_inv:
  "brushInv D U st \<Longrightarrow> getPoint (props st) rect e \<in> D \<Longrightarrow> brushInv D U (brushPointerDown rect st e)"
  by (simp add: brushInv_def brushPointerDown_def valuesOk_def)

lemma brushPointerMove_inv: "brushInv D U st \<Longrightarrow> brushInv D U (brushPointerMove rect st e)"
  by (auto simp: brushInv_def brushPointerMove_def valuesOk_def)

lemma brushPointerUp_inv:
  "brushInv D U st \<Longrightarrow> brushSize (props st) \<in> U \<Longrightarrow> brushInv D U (brushPointerUp st e)"
  by (auto simp: brushInv_def brushPointerUp_def valuesOk_def strokeOk_def Let_def)

lemma brushRun_inv:
  "brushInv D U st \<Longrightarrow>
   brushInv (D \<union> set (downPoints (props st) is)) (U \<union> set (upSizes (props st) is))
     (brushRun st is)"
proof (induction "is" arbitrary: st D U)
  case Nil
  then show ?case by (simp add: brushRun_Nil)
next
  case (Cons i "is")
  show ?case
  proof (cases "(st, i)" rule: brushStep.cases)
    case (1 st' q)
    then have i: "i = Render q" by simp
    have "brushInv D U (brushRender q st)" using Cons.prems by (rule brushRender_inv)
    from Cons.IH [OF this] show ?thesis
      by (simp add: i brushRun_Cons brushRender_def)
  next
    case (2 st' rect e)
    then have i: "i = Pointer rect (PointerDown e)" by simp
    let ?d = "getPoint (props st) rect e"
    have "brushInv (insert ?d D) U st"
      using Cons.prems by (rule brushInv_mono) auto
    then have "brushInv (insert ?d D) U (brushPointerDown rect st e)"
      by (rule brushPointerDown_inv) simp
    from Cons.IH [OF this] show ?thesis
      by (simp add: i brushRun_Cons brushPointerDown_def Un_commute insert_commute)
  next
    case (3 st' rect e)
    then have i: "i = Pointer rect (PointerMove e)" by simp
    have p: "props (brushPointerMove rect st e) = props st"
      by (simp add: brushPointerMove_def)
    have "brushInv D U (brushPointerMove rect st e)"
      using Cons.prems by (rule brushPointerMove_inv)
    from Cons.IH [OF this] show ?thesis
      by (simp add: i brushRun_Cons p)
  next
    case (4 st' rect e)
    then have i: "i = Pointer rect (PointerUp e)" by simp
    have p: "props (brushPointerUp st e) = props st"
      by (simp add: brushPointerUp_def Let_def)
    have "brushInv D (insert (brushSize (props st)) U) st"
      using Cons.prems by (rule brushInv_mono) auto
    then have "brushInv D (insert (brushSize (props st)) U) (brushPointerUp st e)"
      by (rule brushPointerUp_inv) simp
    from Cons.IH [OF this] show ?thesis
      by (simp add: i brushRun_Cons p Un_commute insert_commute)
  qed
qed

lemma brushMount_inv: "brushInv {} {} (brushMount p)"
  by (simp add: brushInv_def brushMount_def valuesOk_def brushInitialValues_def)

text \<open>
  C10. After any sequence of renders and pointer events on a freshly mounted brush
  overlay, every stroke of the stroke sequence (in the state and in the values of the
  last render, which is what \<open>onStrokesChange\<close> receives) has at least one point, its
  first point is the point of a pointer-down event of the sequence, its colour is
  \<open>rgba(255, 50, 50, 0.5)\<close>, and its size is the brush size of the render in which a
  pointer-up event of the sequence was handled. A single input changes the stroke
  sequence only if it is a pointer-up event; it then appends one stroke, made of the
  current points of the render that handles it, with the brush size of that render and
  the constant colour.
\<close>

theorem persisted_strokes:
  "(\<forall>s \<in> set (strokes (latest (brushRun (brushMount p0) is))) \<union>
           set (strokes (seen (brushRun (brushMount p0) is))).
      stroke_points s \<noteq> [] \<and>
      hd (stroke_points s) \<in> set (downPoints p0 is) \<and>
      stroke_color s = ''rgba(255, 50, 50, 0.5)'' \<and>
      stroke_size s \<in> set (upSizes p0 is)) \<and>
   (strokes (latest (brushStep st i)) = strokes (latest st) \<or>
    (\<exists>rect e. i = Pointer rect (PointerUp e) \<and> isDrawing (seen st) \<and>
       currentPoints (seen st) \<noteq> [] \<and>
       strokes (latest (brushStep st i)) =
         strokes (latest st) @ [\<lparr>stroke_points = currentPoints (seen st),
                                  stroke_size = brushSize (props st),
                                  stroke_color = ''rgba(255, 50, 50, 0.5)''\<rparr>]))"
proof
  have "brushInv ({} \<union> set (downPoints (props (brushMount p0)) is))
                 ({} \<union> set (upSizes (props (brushMount p0)) is))
                 (brushRun (brushMount p0) is)"
    using brushMount_inv by (rule brushRun_inv)
  then have "brushInv (set (downPoints p0 is)) (set (upSizes p0 is)) (brushRun (brushMount p0) is)"
    by (simp add: brushMount_def)
  then show "\<forall>s \<in> set (strokes (latest (brushRun (brushMount p0) is))) \<union>
           set (strokes (seen (brushRun (brushMount p0) is))).
      stroke_points s \<noteq> [] \<and>
      hd (stroke_points s) \<in> set (downPoints p0 is) \<and>
      stroke_color s = ''rgba(255, 50, 50, 0.5)'' \<and>
      stroke_size s \<in> set (upSizes p0 is)"
    by (auto simp: brushInv_def valuesOk_def strokeOk_def maskColor_def)
next
  show "strokes (latest (brushStep st i)) = strokes (latest st) \<or>
    (\<exists>rect e. i = Pointer rect (PointerUp e) \<and> isDrawing (seen st) \<and>
       currentPoints (seen st) \<noteq> [] \<and>
       strokes (latest (brushStep st i)) =
         strokes (latest st) @ [\<lparr>stroke_points = currentPoints (seen st),
                                  stroke_size = brushSize (props st),
                                  stroke_color = ''rgba(255, 50, 50, 0.5)''\<rparr>])"
    using brushStep_strokes [of st i] by (simp add: maskColor_def)
qed

text \<open>
  A 200 by 100 canvas shown at 100 by 50, brush size 40: pointer down at (10, 10), a
  render, a move to (20, 10), a render with the brush size changed to 25, a move to
  (30, 10) and, with no render in between, pointer up, then a render. The stroke stored
  has size 25 and the two points (20, 20) and (40, 20) of the render that handled the
  pointer-up event; the point of the last move is not in it.
\<close>

theorem persisted_strokes_witness:
  "strokes (seen (brushRun (brushMount \<lparr>canvasWidth = 200, canvasHeight = 100, brushSize = 40\<rparr>)
     [Pointer (Some \<lparr>rect_left = 0, rect_top = 0, rect_width = 100, rect_height = 50\<rparr>)
        (PointerDown \<lparr>clientX = 10, clientY = 10\<rparr>),
      Render \<lparr>canvasWidth = 200, canvasHeight = 100, brushSize = 40\<rparr>,
      Pointer (Some \<lparr>rect_left = 0, rect_top = 0, rect_width = 100, rect_height = 50\<rparr>)
        (PointerMove \<lparr>clientX = 20, clientY = 10\<rparr>),
      Render \<lparr>canvasWidth = 200, canvasHeight = 100, brushSize = 25\<rparr>,
      Pointer (Some \<lparr>rect_left = 0, rect_top = 0, rect_width = 100, rect_height = 50\<rparr>)
        (PointerMove \<lparr>clientX = 30, clientY = 10\<rparr>),
      Pointer (Some \<lparr>rect_left = 0, rect_top = 0, rect_width = 100, rect_height = 50\<rparr>)
        (PointerUp \<lparr>clientX = 30, clientY = 10\<rparr>),
      Render \<lparr>canvasWidth = 200, canvasHeight = 100, brushSize = 25\<rparr>])) =
     [\<lparr>stroke_points = [\<lparr>pt_x = 20, pt_y = 20\<rparr>, \<lparr>pt_x = 40, pt_y = 20\<rparr>],
       stroke_size = 25, stroke_color = ''rgba(255, 50, 50, 0.5)''\<rparr>] \<and>
   downPoints \<lparr>canvasWidth = 200, canvasHeight = 100, brushSize = 40\<rparr>
     [Pointer (Some \<lparr>rect_left = 0, rect_top = 0, rect_width = 100, rect_height = 50\<rparr>)
        (PointerDown \<lparr>clientX = 10, clientY = 10\<rparr>),
      Render \<lparr>canvasWidth = 200, canvasHeight = 100, brushSize = 40\<rparr>,
      Pointer (Some \<lparr>rect_left = 0, rect_top = 0, rect_width = 100, rect_height = 50\<rparr>)
        (PointerMove \<lparr>clientX = 20, clientY = 10\<rparr>),
      Render \<lparr>canvasWidth = 200, canvasHeight = 100, brushSize = 25\<rparr>,
      Pointer (Some \<lparr>rect_left = 0, rect_top = 0, rect_width = 100, rect_height = 50\<rparr>)
        (PointerMove \<lparr>clientX = 30, clientY = 10\<rparr>),
      Pointer (Some \<lparr>rect_left = 0, rect_top = 0, rect_width = 100, rect_height = 50\<rparr>)
        (PointerUp \<lparr>clientX = 30, clientY = 10\<rparr>),
      Render \<lparr>canvasWidth = 200, canvasHeight = 100, brushSize = 25\<rparr>] =
     [\<lparr>pt_x = 20, pt_y = 20\<rparr>] \<and>
   upSizes \<lparr>canvasWidth = 200, canvasHeight = 100, brushSize = 40\<rparr>
     [Pointer (Some \<lparr>rect_left = 0, rect_top = 0, rect_width = 100, rect_height = 50\<rparr>)
        (PointerDown \<lparr>clientX = 10, clientY = 10\<rparr>),
      Render \<lparr>canvasWidth = 200, canvasHeight = 100, brushSize = 40\<rparr>,
      Pointer (Some \<lparr>rect_left = 0, rect_top = 0, rect_width = 100, rect_height = 50\<rparr>)
        (PointerMove \<lparr>clientX = 20, clientY = 10\<rparr>),
      Render \<lparr>canvasWidth = 200, canvasHeight = 100, brushSize = 25\<rparr>,
      Pointer (Some \<lparr>rect_left = 0, rect_top = 0, rect_width = 100, rect_height = 50\<rparr>)
        (PointerMove \<lparr>clientX = 30, clientY = 10\<rparr>),
      Pointer (Some \<lparr>rect_left = 0, rect_top = 0, rect_width = 100, rect_height = 50\<rparr>)
        (PointerUp \<lparr>clientX = 30, clientY = 10\<rparr>),
      Render \<lparr>canvasWidth = 200, canvasHeight = 100, brushSize = 25\<rparr>] = [25]"
  using persisted_strokes
    [of "\<lparr>canvasWidth = 200, canvasHeight = 100, brushSize = 40\<rparr>"
        "[Pointer (Some \<lparr>rect_left = 0, rect_top = 0, rect_width = 100, rect_height = 50\<rparr>)
        (PointerDown \<lparr>clientX = 10, clientY = 10\<rparr>),
      Render \<lparr>canvasWidth = 200, canvasHeight = 100, brushSize = 40\<rparr>,
      Pointer (Some \<lparr>rect_left = 0, rect_top = 0, rect_width = 100, rect_height = 50\<rparr>)
        (PointerMove \<lparr>clientX = 20, clientY = 10\<rparr>),
      Render \<lparr>canvasWidth = 200, canvasHeight = 100, brushSize = 25\<rparr>,
      Pointer (Some \<lparr>rect_left = 0, rect_top = 0, rect_width = 100, rect_height = 50\<rparr>)
        (PointerMove \<lparr>clientX = 30, clientY = 10\<rparr>),
      Pointer (Some \<lparr>rect_left = 0, rect_top = 0, rect_width = 100, rect_height = 50\<rparr>)
        (PointerUp \<lparr>clientX = 30, clientY = 10\<rparr>),
      Render \<lparr>canvasWidth = 200, canvasHeight = 100, brushSize = 25\<rparr>]"]
  by (simp add: brushRun_def brushMount_def brushInitialValues_def brushRender_def
        brushPointerDown_def brushPointerMove_def brushPointerUp_def getPoint_def
        maskColor_def Let_def)

end
